theory Spec2Isabelle
  imports Main
begin

section \<open>Declarations the gateway route sources import\<close>

text \<open>
  The \<open>scope\<close> argument of every \<open>bind\<close> is a construct of the hosting framework.
  The code under study only passes it on, so it is an opaque value here.
\<close>

datatype Construct = Construct string

record IVirtualService =
  virtualServiceName :: string

record ICertificateAuthority =
  certificateAuthorityArn :: string

datatype Protocol = HTTP | TCP | HTTP2 | GRPC

datatype Method = GET | PUT | POST | DELETE

datatype Default = ENABLED | DISABLED

text \<open>The string value of a member of the \<open>Default\<close> enum.\<close>

fun Default_value :: "Default \<Rightarrow> string" where
  "Default_value ENABLED = ''enabled''"
| "Default_value DISABLED = ''disabled''"

text \<open>The string value of a member of the \<open>Method\<close> enum.\<close>

fun Method_value :: "Method \<Rightarrow> string" where
  "Method_value GET = ''GET''"
| "Method_value PUT = ''PUT''"
| "Method_value POST = ''POST''"
| "Method_value DELETE = ''DELETE''"

subsection \<open>Property shapes of the generated resource layer\<close>

text \<open>
  The \<open>CfnGatewayRoute\<close> and \<open>CfnVirtualNode\<close> property interfaces are plain structs of
  optional fields. An optional field is an \<open>option\<close>; a field name carries the name of
  its struct where two structs use the same name.
\<close>

record GatewayRouteHostnameMatchProperty =
  hostname_exact :: "string option"
  hostname_suffix :: "string option"

record GatewayRouteRangeMatchProperty =
  range_start :: int
  range_end :: int

record GatewayRouteMetadataMatchProperty =
  metadata_exact :: "string option"
  metadata_prefix :: "string option"
  metadata_range :: "GatewayRouteRangeMatchProperty option"
  metadata_regex :: "string option"
  metadata_suffix :: "string option"

record GrpcGatewayRouteMetadataProperty =
  metadata_name :: string
  metadata_invert :: "bool option"
  metadata_match :: "GatewayRouteMetadataMatchProperty option"

record HttpPathMatchProperty =
  path_exact :: "string option"
  path_regex :: "string option"

record HttpQueryParameterMatchProperty =
  query_exact :: "string option"

record QueryParameterProperty =
  query_match :: "HttpQueryParameterMatchProperty option"
  query_name :: string

record HttpRouteHeaderProperty =
  header_name :: string
  header_invert :: "bool option"
  header_match :: "GatewayRouteMetadataMatchProperty option"

record HttpGatewayRouteMatchProperty =
  prefix :: "string option"
  headers :: "HttpRouteHeaderProperty list option"
  hostname :: "GatewayRouteHostnameMatchProperty option"
  request_method :: "string option"
  path :: "HttpPathMatchProperty option"
  queryParameters :: "QueryParameterProperty list option"

record GrpcGatewayRouteMatchProperty =
  grpc_hostname :: "GatewayRouteHostnameMatchProperty option"
  grpc_metadata :: "GrpcGatewayRouteMetadataProperty list option"
  grpc_serviceName :: "string option"

record GatewayRouteHostnameRewriteProperty =
  defaultTargetHostname :: "string option"

record HttpGatewayRoutePathRewriteProperty =
  rewrite_exact :: "string option"

record HttpGatewayRoutePrefixRewriteProperty =
  defaultPrefix :: "string option"
  rewrite_value :: "string option"

record HttpGatewayRouteRewriteProperty =
  action_hostname :: "GatewayRouteHostnameRewriteProperty option"
  action_path :: "HttpGatewayRoutePathRewriteProperty option"
  action_prefix :: "HttpGatewayRoutePrefixRewriteProperty option"

record GrpcGatewayRouteRewriteProperty =
  grpc_action_hostname :: "GatewayRouteHostnameRewriteProperty option"

record GatewayRouteVirtualServiceProperty =
  target_virtualServiceName :: string

record GatewayRouteTargetProperty =
  virtualService :: GatewayRouteVirtualServiceProperty

record HttpGatewayRouteActionProperty =
  http_target :: GatewayRouteTargetProperty
  http_rewrite :: "HttpGatewayRouteRewriteProperty option"

record GrpcGatewayRouteActionProperty =
  grpc_target :: GatewayRouteTargetProperty
  grpc_rewrite :: "GrpcGatewayRouteRewriteProperty option"

record HttpGatewayRouteProperty =
  http_match :: HttpGatewayRouteMatchProperty
  http_action :: HttpGatewayRouteActionProperty

record GrpcGatewayRouteProperty =
  grpc_action :: GrpcGatewayRouteActionProperty
  grpc_match :: GrpcGatewayRouteMatchProperty

record TlsValidationContextAcmTrustProperty =
  certificateAuthorityArns :: "string list"

record TlsValidationContextFileTrustProperty =
  trust_certificateChain :: string

record TlsValidationContextSdsTrustProperty =
  trust_secretName :: string

record TlsValidationContextTrustProperty =
  trust_acm :: "TlsValidationContextAcmTrustProperty option"
  trust_file :: "TlsValidationContextFileTrustProperty option"
  trust_sds :: "TlsValidationContextSdsTrustProperty option"

subsection \<open>Errors\<close>

text \<open>
  Every \<open>throw new Error(...)\<close> of the sources is one constructor; \<open>error_message\<close> gives
  the text the source builds.
\<close>

datatype error =
    InvalidPrefixFormat string
  | PrefixRewriteRequiresPrefixMatch
  | PathRewriteConflictsWithPrefixMatch
  | MissingCertificateAuthority

fun error_message :: "error \<Rightarrow> string" where
  "error_message (InvalidPrefixFormat prefixPath) =
     ''Prefix Path must start with '' @ [CHR 0x27] @ ''/'' @ [CHR 0x27] @ '', got: '' @ prefixPath"
| "error_message PrefixRewriteRequiresPrefixMatch =
     ''HTTP Gateway Route Prefix Match must be set.''"
| "error_message PathRewriteConflictsWithPrefixMatch =
     ''HTTP Gateway Route Prefix Match and Path Rewrite both cannot be set.''"
| "error_message MissingCertificateAuthority =
     ''you must provide at least one Certificate Authority when creating an ACM Trust ClientPolicy''"

subsection \<open>Truthiness\<close>

text \<open>
  A condition of the source tests a value for truthiness: an absent value and the empty
  string are falsy, every object is truthy.
\<close>

fun truthy_string :: "string option \<Rightarrow> bool" where
  "truthy_string None = False"
| "truthy_string (Some s) = (s \<noteq> [])"

fun truthy_object :: "'a option \<Rightarrow> bool" where
  "truthy_object None = False"
| "truthy_object (Some _) = True"

section \<open>TLS validation trust (tls-validation.ts)\<close>

record TlsValidationTrustConfig =
  tlsValidationTrust :: TlsValidationContextTrustProperty

record TlsValidationAcmTrustOptions =
  certificateAuthorities :: "ICertificateAuthority list"

record TlsValidationFileTrustOptions =
  certificateChain :: string

record TlsValidationSdsTrustOptions =
  secretName :: string

datatype TlsValidationTrust =
    TlsValidationAcmTrust "ICertificateAuthority list"
  | TlsValidationFileTrust string
  | TlsValidationSdsTrust string

definition TlsValidationTrust_file :: "TlsValidationFileTrustOptions \<Rightarrow> TlsValidationTrust" where
  "TlsValidationTrust_file props = TlsValidationFileTrust (certificateChain props)"

definition TlsValidationTrust_acm :: "TlsValidationAcmTrustOptions \<Rightarrow> TlsValidationTrust" where
  "TlsValidationTrust_acm props = TlsValidationAcmTrust (certificateAuthorities props)"

definition TlsValidationTrust_sds :: "TlsValidationSdsTrustOptions \<Rightarrow> TlsValidationTrust" where
  "TlsValidationTrust_sds props = TlsValidationSdsTrust (secretName props)"

fun TlsValidationTrust_bind :: "Construct \<Rightarrow> TlsValidationTrust \<Rightarrow> error + TlsValidationTrustConfig" where
  "TlsValidationTrust_bind scope (TlsValidationAcmTrust cas) =
     (if length cas = 0 then Inl MissingCertificateAuthority
      else Inr \<lparr> tlsValidationTrust = \<lparr>
        trust_acm = Some \<lparr> certificateAuthorityArns =
          map (\<lambda>certificateArn. certificateAuthorityArn certificateArn) cas \<rparr>,
        trust_file = None,
        trust_sds = None \<rparr> \<rparr>)"
| "TlsValidationTrust_bind scope (TlsValidationFileTrust chain) =
     Inr \<lparr> tlsValidationTrust = \<lparr>
       trust_acm = None,
       trust_file = Some \<lparr> trust_certificateChain = chain \<rparr>,
       trust_sds = None \<rparr> \<rparr>"
| "TlsValidationTrust_bind scope (TlsValidationSdsTrust name) =
     Inr \<lparr> tlsValidationTrust = \<lparr>
       trust_acm = None,
       trust_file = None,
       trust_sds = Some \<lparr> trust_secretName = name \<rparr> \<rparr> \<rparr>"

section \<open>Gateway route specification (src/unnamed/part_000)\<close>

subsection \<open>Host name match\<close>

record GatewayRouteHostnameMatchConfig =
  hostnameMatch :: GatewayRouteHostnameMatchProperty

datatype GatewayRouteHostname = GatewayRouteHostnameImpl GatewayRouteHostnameMatchProperty

definition GatewayRouteHostname_matchingExactly :: "string \<Rightarrow> GatewayRouteHostname" where
  "GatewayRouteHostname_matchingExactly name =
     GatewayRouteHostnameImpl \<lparr> hostname_exact = Some name, hostname_suffix = None \<rparr>"

definition GatewayRouteHostname_matchingSuffix :: "string \<Rightarrow> GatewayRouteHostname" where
  "GatewayRouteHostname_matchingSuffix suffix =
     GatewayRouteHostnameImpl \<lparr> hostname_exact = None, hostname_suffix = Some suffix \<rparr>"

fun GatewayRouteHostname_bind :: "Construct \<Rightarrow> GatewayRouteHostname \<Rightarrow> GatewayRouteHostnameMatchConfig" where
  "GatewayRouteHostname_bind scope (GatewayRouteHostnameImpl matchProperty) =
     \<lparr> hostnameMatch = matchProperty \<rparr>"

subsection \<open>Metadata match\<close>

record GrpcGatewayRouteMetadataMatchConfig =
  metadataMatch :: GrpcGatewayRouteMetadataProperty

datatype GrpcMetadataMatch =
  MetadataMatchImpl string bool GatewayRouteMetadataMatchProperty

text \<open>The object literal with none of the five match fields.\<close>

definition no_match_method :: GatewayRouteMetadataMatchProperty where
  "no_match_method = \<lparr> metadata_exact = None, metadata_prefix = None, metadata_range = None,
     metadata_regex = None, metadata_suffix = None \<rparr>"

definition GrpcMetadataMatch_valueIs :: "string \<Rightarrow> string \<Rightarrow> GrpcMetadataMatch" where
  "GrpcMetadataMatch_valueIs metadataName metadataValue =
     MetadataMatchImpl metadataName False (no_match_method\<lparr> metadata_exact := Some metadataValue \<rparr>)"

definition GrpcMetadataMatch_valueIsNot :: "string \<Rightarrow> string \<Rightarrow> GrpcMetadataMatch" where
  "GrpcMetadataMatch_valueIsNot metadataName metadataValue =
     MetadataMatchImpl metadataName True (no_match_method\<lparr> metadata_exact := Some metadataValue \<rparr>)"

definition GrpcMetadataMatch_valueStartsWith :: "string \<Rightarrow> string \<Rightarrow> GrpcMetadataMatch" where
  "GrpcMetadataMatch_valueStartsWith metadataName pfx =
     MetadataMatchImpl metadataName False (no_match_method\<lparr> metadata_prefix := Some pfx \<rparr>)"

definition GrpcMetadataMatch_valueDoesNotStartWith :: "string \<Rightarrow> string \<Rightarrow> GrpcMetadataMatch" where
  "GrpcMetadataMatch_valueDoesNotStartWith metadataName pfx =
     MetadataMatchImpl metadataName True (no_match_method\<lparr> metadata_prefix := Some pfx \<rparr>)"

definition GrpcMetadataMatch_valueEndsWith :: "string \<Rightarrow> string \<Rightarrow> GrpcMetadataMatch" where
  "GrpcMetadataMatch_valueEndsWith metadataName sfx =
     MetadataMatchImpl metadataName False (no_match_method\<lparr> metadata_suffix := Some sfx \<rparr>)"

definition GrpcMetadataMatch_valueDoesNotEndWith :: "string \<Rightarrow> string \<Rightarrow> GrpcMetadataMatch" where
  "GrpcMetadataMatch_valueDoesNotEndWith metadataName sfx =
     MetadataMatchImpl metadataName True (no_match_method\<lparr> metadata_suffix := Some sfx \<rparr>)"

definition GrpcMetadataMatch_valueMatchesRegex :: "string \<Rightarrow> string \<Rightarrow> GrpcMetadataMatch" where
  "GrpcMetadataMatch_valueMatchesRegex metadataName regex =
     MetadataMatchImpl metadataName False (no_match_method\<lparr> metadata_regex := Some regex \<rparr>)"

definition GrpcMetadataMatch_valueDoesNotMatchRegex :: "string \<Rightarrow> string \<Rightarrow> GrpcMetadataMatch" where
  "GrpcMetadataMatch_valueDoesNotMatchRegex metadataName regex =
     MetadataMatchImpl metadataName True (no_match_method\<lparr> metadata_regex := Some regex \<rparr>)"

definition GrpcMetadataMatch_valuesIsInRange :: "string \<Rightarrow> int \<Rightarrow> int \<Rightarrow> GrpcMetadataMatch" where
  "GrpcMetadataMatch_valuesIsInRange metadataName start end' =
     MetadataMatchImpl metadataName False
       (no_match_method\<lparr> metadata_range := Some \<lparr> range_start = start, range_end = end' \<rparr> \<rparr>)"

definition GrpcMetadataMatch_valuesIsNotInRange :: "string \<Rightarrow> int \<Rightarrow> int \<Rightarrow> GrpcMetadataMatch" where
  "GrpcMetadataMatch_valuesIsNotInRange metadataName start end' =
     MetadataMatchImpl metadataName True
       (no_match_method\<lparr> metadata_range := Some \<lparr> range_start = start, range_end = end' \<rparr> \<rparr>)"

fun GrpcMetadataMatch_bind :: "Construct \<Rightarrow> GrpcMetadataMatch \<Rightarrow> GrpcGatewayRouteMetadataMatchConfig" where
  "GrpcMetadataMatch_bind scope (MetadataMatchImpl metadataName invert matchProperty) =
     \<lparr> metadataMatch = \<lparr>
         metadata_name = metadataName,
         metadata_invert = Some invert,
         metadata_match = Some matchProperty \<rparr> \<rparr>"

subsection \<open>Header match\<close>

text \<open>
  Modelled from the spec: \<open>HttpHeaderMatch\<close> is imported from \<open>./route-spec\<close>, which is
  not among the sources. The spec describes a header match as a leaf criterion wrapping
  one value matcher with a name and an optional negation; the gateway route code reads
  only \<open>bind(scope).httpRouteHeader\<close> of it.
\<close>

record HttpRouteHeaderMatchConfig =
  httpRouteHeader :: HttpRouteHeaderProperty

datatype HttpHeaderMatch =
  HeaderMatchImpl string bool GatewayRouteMetadataMatchProperty

fun HttpHeaderMatch_bind :: "Construct \<Rightarrow> HttpHeaderMatch \<Rightarrow> HttpRouteHeaderMatchConfig" where
  "HttpHeaderMatch_bind scope (HeaderMatchImpl headerName invert matchProperty) =
     \<lparr> httpRouteHeader = \<lparr>
         header_name = headerName,
         header_invert = Some invert,
         header_match = Some matchProperty \<rparr> \<rparr>"

subsection \<open>Path match\<close>

record HttpPathMatchConfig =
  pathMatch :: HttpPathMatchProperty

datatype HttpPathMatch = HttpPathMatchImpl HttpPathMatchProperty

definition HttpPathMatch_matchingExactly :: "string \<Rightarrow> HttpPathMatch" where
  "HttpPathMatch_matchingExactly p = HttpPathMatchImpl \<lparr> path_exact = Some p, path_regex = None \<rparr>"

definition HttpPathMatch_matchingRegex :: "string \<Rightarrow> HttpPathMatch" where
  "HttpPathMatch_matchingRegex regex = HttpPathMatchImpl \<lparr> path_exact = None, path_regex = Some regex \<rparr>"

fun HttpPathMatch_bind :: "Construct \<Rightarrow> HttpPathMatch \<Rightarrow> HttpPathMatchConfig" where
  "HttpPathMatch_bind scope (HttpPathMatchImpl pm) = \<lparr> pathMatch = pm \<rparr>"

subsection \<open>Query parameter match\<close>

record QueryParameterConfig =
  queryParameter :: QueryParameterProperty

datatype QueryParameterMatch =
  QueryParameterMatchImpl string HttpQueryParameterMatchProperty

definition QueryParameterMatch_valueIs :: "string \<Rightarrow> string \<Rightarrow> QueryParameterMatch" where
  "QueryParameterMatch_valueIs queryParameterName queryParameterValue =
     QueryParameterMatchImpl queryParameterName \<lparr> query_exact = Some queryParameterValue \<rparr>"

fun QueryParameterMatch_bind :: "Construct \<Rightarrow> QueryParameterMatch \<Rightarrow> QueryParameterConfig" where
  "QueryParameterMatch_bind scope (QueryParameterMatchImpl queryParameterName matchProperty) =
     \<lparr> queryParameter = \<lparr> query_match = Some matchProperty, query_name = queryParameterName \<rparr> \<rparr>"

subsection \<open>Path or prefix match\<close>

record HttpGatewayRouteMatchConfig =
  requestMatch :: HttpGatewayRouteMatchProperty

datatype HttpGatewayRoutePathOrPrefixMatch =
    HttpGatewayRoutePrefixMatchImpl string
  | HttpGatewayRoutePathMatchImpl HttpPathMatch

definition HttpGatewayRoutePathOrPrefixMatch_prefix :: "string \<Rightarrow> HttpGatewayRoutePathOrPrefixMatch" where
  "HttpGatewayRoutePathOrPrefixMatch_prefix p = HttpGatewayRoutePrefixMatchImpl p"

definition HttpGatewayRoutePathOrPrefixMatch_path :: "HttpPathMatch \<Rightarrow> HttpGatewayRoutePathOrPrefixMatch" where
  "HttpGatewayRoutePathOrPrefixMatch_path pm = HttpGatewayRoutePathMatchImpl pm"

fun HttpGatewayRoutePathOrPrefixMatch_bind ::
  "Construct \<Rightarrow> HttpGatewayRoutePathOrPrefixMatch \<Rightarrow> HttpGatewayRouteMatchConfig" where
  "HttpGatewayRoutePathOrPrefixMatch_bind scope (HttpGatewayRoutePrefixMatchImpl p) =
     \<lparr> requestMatch = \<lparr>
         prefix = Some p,
         headers = None, hostname = None, request_method = None, path = None, queryParameters = None \<rparr> \<rparr>"
| "HttpGatewayRoutePathOrPrefixMatch_bind scope (HttpGatewayRoutePathMatchImpl pm) =
     \<lparr> requestMatch = \<lparr>
         prefix = None, headers = None, hostname = None, request_method = None,
         path = Some (pathMatch (HttpPathMatch_bind scope pm)),
         queryParameters = None \<rparr> \<rparr>"

subsection \<open>HTTP gateway route match\<close>

record HttpGatewayRoutePrefixMatchOptions =
  prefixOpt_headers :: "HttpHeaderMatch list option"
  prefixOpt_hostname :: "GatewayRouteHostname option"
  prefixOpt_method :: "Method option"
  prefixOpt_queryParameters :: "QueryParameterMatch list option"

record HttpGatewayRouteHeaderMatchOptions =
  headerOpt_hostname :: "GatewayRouteHostname option"
  headerOpt_method :: "Method option"
  headerOpt_queryParameters :: "QueryParameterMatch list option"
  headerOpt_prefixOrPath :: "HttpGatewayRoutePathOrPrefixMatch option"

record HttpGatewayRouteHostnameMatchOptions =
  hostnameOpt_headers :: "HttpHeaderMatch list option"
  hostnameOpt_method :: "Method option"
  hostnameOpt_queryParameters :: "QueryParameterMatch list option"
  hostnameOpt_prefixOrPath :: "HttpGatewayRoutePathOrPrefixMatch option"

record HttpGatewayRouteMethodMatchOptions =
  methodOpt_headers :: "HttpHeaderMatch list option"
  methodOpt_hostname :: "GatewayRouteHostname option"
  methodOpt_queryParameters :: "QueryParameterMatch list option"
  methodOpt_prefixOrPath :: "HttpGatewayRoutePathOrPrefixMatch option"

record HttpGatewayRoutePathMatchOptions =
  pathOpt_headers :: "HttpHeaderMatch list option"
  pathOpt_method :: "Method option"
  pathOpt_hostname :: "GatewayRouteHostname option"
  pathOpt_queryParameters :: "QueryParameterMatch list option"

record HttpGatewayRouteQueryParameterMatchOptions =
  queryOpt_headers :: "HttpHeaderMatch list option"
  queryOpt_hostname :: "GatewayRouteHostname option"
  queryOpt_method :: "Method option"
  queryOpt_prefixOrPath :: "HttpGatewayRoutePathOrPrefixMatch option"

text \<open>
  The options of the prefix and header matches may be omitted; those of the other four
  entry points are required by their signatures.
\<close>

datatype HttpGatewayRouteMatch =
    HttpGatewayRoutePrefixMatch string "HttpGatewayRoutePrefixMatchOptions option"
  | HttpGatewayRouteHeaderMatch "HttpHeaderMatch list" "HttpGatewayRouteHeaderMatchOptions option"
  | HttpGatewayRouteHostnameMatch GatewayRouteHostname HttpGatewayRouteHostnameMatchOptions
  | HttpGatewayRouteMethodMatch Method HttpGatewayRouteMethodMatchOptions
  | HttpGatewayRoutePathMatch HttpPathMatch HttpGatewayRoutePathMatchOptions
  | HttpGatewayRouteQueryParameterMatch "QueryParameterMatch list" HttpGatewayRouteQueryParameterMatchOptions

definition HttpGatewayRouteMatch_prefix ::
  "string \<Rightarrow> HttpGatewayRoutePrefixMatchOptions option \<Rightarrow> HttpGatewayRouteMatch" where
  "HttpGatewayRouteMatch_prefix p options = HttpGatewayRoutePrefixMatch p options"

definition HttpGatewayRouteMatch_header ::
  "HttpHeaderMatch list \<Rightarrow> HttpGatewayRouteHeaderMatchOptions option \<Rightarrow> HttpGatewayRouteMatch" where
  "HttpGatewayRouteMatch_header hs options = HttpGatewayRouteHeaderMatch hs options"

definition HttpGatewayRouteMatch_hostname ::
  "GatewayRouteHostname \<Rightarrow> HttpGatewayRouteHostnameMatchOptions \<Rightarrow> HttpGatewayRouteMatch" where
  "HttpGatewayRouteMatch_hostname h options = HttpGatewayRouteHostnameMatch h options"

definition HttpGatewayRouteMatch_method ::
  "Method \<Rightarrow> HttpGatewayRouteMethodMatchOptions \<Rightarrow> HttpGatewayRouteMatch" where
  "HttpGatewayRouteMatch_method m options = HttpGatewayRouteMethodMatch m options"

definition HttpGatewayRouteMatch_path ::
  "HttpPathMatch \<Rightarrow> HttpGatewayRoutePathMatchOptions \<Rightarrow> HttpGatewayRouteMatch" where
  "HttpGatewayRouteMatch_path pm options = HttpGatewayRoutePathMatch pm options"

definition HttpGatewayRouteMatch_queryParameters ::
  "QueryParameterMatch list \<Rightarrow> HttpGatewayRouteQueryParameterMatchOptions \<Rightarrow> HttpGatewayRouteMatch" where
  "HttpGatewayRouteMatch_queryParameters qs options = HttpGatewayRouteQueryParameterMatch qs options"

text \<open>
  \<open>xs?.map(x => x.bind(scope).field)\<close> on an optional list, for the three kinds of list
  the matches carry, and \<open>h?.bind(scope).hostnameMatch\<close> on an optional host name.
\<close>

definition bind_headers :: "Construct \<Rightarrow> HttpHeaderMatch list option \<Rightarrow> HttpRouteHeaderProperty list option" where
  "bind_headers scope hs = map_option (map (\<lambda>header. httpRouteHeader (HttpHeaderMatch_bind scope header))) hs"

definition bind_queryParameters ::
  "Construct \<Rightarrow> QueryParameterMatch list option \<Rightarrow> QueryParameterProperty list option" where
  "bind_queryParameters scope qs =
     map_option (map (\<lambda>q. queryParameter (QueryParameterMatch_bind scope q))) qs"

definition bind_hostname :: "Construct \<Rightarrow> GatewayRouteHostname option \<Rightarrow> GatewayRouteHostnameMatchProperty option" where
  "bind_hostname scope h = map_option (\<lambda>hn. hostnameMatch (GatewayRouteHostname_bind scope hn)) h"

definition bind_prefixOrPath_path ::
  "Construct \<Rightarrow> HttpGatewayRoutePathOrPrefixMatch option \<Rightarrow> HttpPathMatchProperty option" where
  "bind_prefixOrPath_path scope pp =
     Option.bind pp (\<lambda>m. path (requestMatch (HttpGatewayRoutePathOrPrefixMatch_bind scope m)))"

definition bind_prefixOrPath_prefix ::
  "Construct \<Rightarrow> HttpGatewayRoutePathOrPrefixMatch option \<Rightarrow> string option" where
  "bind_prefixOrPath_prefix scope pp =
     Option.bind pp (\<lambda>m. prefix (requestMatch (HttpGatewayRoutePathOrPrefixMatch_bind scope m)))"

fun HttpGatewayRouteMatch_bind :: "Construct \<Rightarrow> HttpGatewayRouteMatch \<Rightarrow> HttpGatewayRouteMatchConfig" where
  "HttpGatewayRouteMatch_bind scope (HttpGatewayRoutePrefixMatch p options) =
     \<lparr> requestMatch = \<lparr>
         prefix = Some p,
         headers = bind_headers scope (Option.bind options prefixOpt_headers),
         hostname = bind_hostname scope (Option.bind options prefixOpt_hostname),
         request_method = map_option Method_value (Option.bind options prefixOpt_method),
         path = None,
         queryParameters = bind_queryParameters scope (Option.bind options prefixOpt_queryParameters) \<rparr> \<rparr>"
| "HttpGatewayRouteMatch_bind scope (HttpGatewayRouteHeaderMatch hs options) =
     \<lparr> requestMatch = \<lparr>
         prefix = bind_prefixOrPath_prefix scope (Option.bind options headerOpt_prefixOrPath),
         headers = Some (map (\<lambda>header. httpRouteHeader (HttpHeaderMatch_bind scope header)) hs),
         hostname = bind_hostname scope (Option.bind options headerOpt_hostname),
         request_method = map_option Method_value (Option.bind options headerOpt_method),
         path = bind_prefixOrPath_path scope (Option.bind options headerOpt_prefixOrPath),
         queryParameters = bind_queryParameters scope (Option.bind options headerOpt_queryParameters) \<rparr> \<rparr>"
| "HttpGatewayRouteMatch_bind scope (HttpGatewayRouteHostnameMatch h options) =
     \<lparr> requestMatch = \<lparr>
         prefix = bind_prefixOrPath_prefix scope (hostnameOpt_prefixOrPath options),
         headers = bind_headers scope (hostnameOpt_headers options),
         hostname = Some (hostnameMatch (GatewayRouteHostname_bind scope h)),
         request_method = map_option Method_value (hostnameOpt_method options),
         path = bind_prefixOrPath_path scope (hostnameOpt_prefixOrPath options),
         queryParameters = bind_queryParameters scope (hostnameOpt_queryParameters options) \<rparr> \<rparr>"
| "HttpGatewayRouteMatch_bind scope (HttpGatewayRouteMethodMatch m options) =
     \<lparr> requestMatch = \<lparr>
         prefix = bind_prefixOrPath_prefix scope (methodOpt_prefixOrPath options),
         headers = bind_headers scope (methodOpt_headers options),
         hostname = bind_hostname scope (methodOpt_hostname options),
         request_method = Some (Method_value m),
         path = bind_prefixOrPath_path scope (methodOpt_prefixOrPath options),
         queryParameters = bind_queryParameters scope (methodOpt_queryParameters options) \<rparr> \<rparr>"
| "HttpGatewayRouteMatch_bind scope (HttpGatewayRoutePathMatch pm options) =
     \<lparr> requestMatch = \<lparr>
         prefix = None,
         headers = bind_headers scope (pathOpt_headers options),
         hostname = bind_hostname scope (pathOpt_hostname options),
         request_method = map_option Method_value (pathOpt_method options),
         path = Some (pathMatch (HttpPathMatch_bind scope pm)),
         queryParameters = bind_queryParameters scope (pathOpt_queryParameters options) \<rparr> \<rparr>"
| "HttpGatewayRouteMatch_bind scope (HttpGatewayRouteQueryParameterMatch qs options) =
     \<lparr> requestMatch = \<lparr>
         prefix = bind_prefixOrPath_prefix scope (queryOpt_prefixOrPath options),
         headers = bind_headers scope (queryOpt_headers options),
         hostname = bind_hostname scope (queryOpt_hostname options),
         request_method = map_option Method_value (queryOpt_method options),
         path = bind_prefixOrPath_path scope (queryOpt_prefixOrPath options),
         queryParameters =
           Some (map (\<lambda>q. queryParameter (QueryParameterMatch_bind scope q)) qs) \<rparr> \<rparr>"

subsection \<open>gRPC gateway route match\<close>

record GrpcGatewayRouteMatchConfig =
  grpc_requestMatch :: GrpcGatewayRouteMatchProperty

record GrpcGatewayRouteHostnameMatchOptions =
  grpcHostnameOpt_metadata :: "GrpcMetadataMatch list option"
  grpcHostnameOpt_serviceName :: "string option"

record GrpcGatewayRouteMetadataMatchOptions =
  grpcMetadataOpt_hostname :: "GatewayRouteHostname option"
  grpcMetadataOpt_serviceName :: "string option"

record GrpcGatewayRouteServiceNameMatchOptions =
  grpcServiceNameOpt_hostname :: "GatewayRouteHostname option"
  grpcServiceNameOpt_metadata :: "GrpcMetadataMatch list option"

datatype GrpcGatewayRouteMatch =
    GrpcGatewayRouteHostnameMatchImpl GatewayRouteHostname "GrpcGatewayRouteHostnameMatchOptions option"
  | GrpcGatewayRouteMetadataMatchImpl "GrpcMetadataMatch list" "GrpcGatewayRouteMetadataMatchOptions option"
  | GrpcGatewayRouteServicenameMatchImpl string "GrpcGatewayRouteServiceNameMatchOptions option"

definition GrpcGatewayRouteMatch_hostname ::
  "GatewayRouteHostname \<Rightarrow> GrpcGatewayRouteHostnameMatchOptions option \<Rightarrow> GrpcGatewayRouteMatch" where
  "GrpcGatewayRouteMatch_hostname h options = GrpcGatewayRouteHostnameMatchImpl h options"

definition GrpcGatewayRouteMatch_metadata ::
  "GrpcMetadataMatch list \<Rightarrow> GrpcGatewayRouteMetadataMatchOptions option \<Rightarrow> GrpcGatewayRouteMatch" where
  "GrpcGatewayRouteMatch_metadata ms options = GrpcGatewayRouteMetadataMatchImpl ms options"

definition GrpcGatewayRouteMatch_serviceName ::
  "string \<Rightarrow> GrpcGatewayRouteServiceNameMatchOptions option \<Rightarrow> GrpcGatewayRouteMatch" where
  "GrpcGatewayRouteMatch_serviceName serviceName options = GrpcGatewayRouteServicenameMatchImpl serviceName options"

definition bind_metadata ::
  "Construct \<Rightarrow> GrpcMetadataMatch list option \<Rightarrow> GrpcGatewayRouteMetadataProperty list option" where
  "bind_metadata scope ms =
     map_option (map (\<lambda>metadata. metadataMatch (GrpcMetadataMatch_bind scope metadata))) ms"

fun GrpcGatewayRouteMatch_bind :: "Construct \<Rightarrow> GrpcGatewayRouteMatch \<Rightarrow> GrpcGatewayRouteMatchConfig" where
  "GrpcGatewayRouteMatch_bind scope (GrpcGatewayRouteHostnameMatchImpl h options) =
     \<lparr> grpc_requestMatch = \<lparr>
         grpc_hostname = Some (hostnameMatch (GatewayRouteHostname_bind scope h)),
         grpc_metadata = bind_metadata scope (Option.bind options grpcHostnameOpt_metadata),
         grpc_serviceName = Option.bind options grpcHostnameOpt_serviceName \<rparr> \<rparr>"
| "GrpcGatewayRouteMatch_bind scope (GrpcGatewayRouteMetadataMatchImpl ms options) =
     \<lparr> grpc_requestMatch = \<lparr>
         grpc_hostname = bind_hostname scope (Option.bind options grpcMetadataOpt_hostname),
         grpc_metadata = Some (map (\<lambda>metadata. metadataMatch (GrpcMetadataMatch_bind scope metadata)) ms),
         grpc_serviceName = Option.bind options grpcMetadataOpt_serviceName \<rparr> \<rparr>"
| "GrpcGatewayRouteMatch_bind scope (GrpcGatewayRouteServicenameMatchImpl serviceName options) =
     \<lparr> grpc_requestMatch = \<lparr>
         grpc_hostname = bind_hostname scope (Option.bind options grpcServiceNameOpt_hostname),
         grpc_metadata = bind_metadata scope (Option.bind options grpcServiceNameOpt_metadata),
         grpc_serviceName = Some serviceName \<rparr> \<rparr>"

subsection \<open>HTTP gateway route rewrite\<close>

record HttpGatewayRouteRewriteConfig =
  rewrite_hostname :: "GatewayRouteHostnameRewriteProperty option"
  rewrite_path :: "HttpGatewayRoutePathRewriteProperty option"
  rewrite_prefix :: "HttpGatewayRoutePrefixRewriteProperty option"

datatype HttpGatewayRouteHostnameOtherRewrite =
    HttpGatewayRoutePathRewriteImpl string
  | HttpGatewayRoutePrefixRewriteImpl HttpGatewayRoutePrefixRewriteProperty

record HttpGatewayRouteHostnameRewriteOptions =
  other :: "HttpGatewayRouteHostnameOtherRewrite option"

record HttpGatewayRoutePrefixRewriteOptions =
  opt_defaultTargetHostname :: "string option"

definition HttpGatewayRouteHostnameOtherRewrite_path :: "string \<Rightarrow> HttpGatewayRouteHostnameOtherRewrite" where
  "HttpGatewayRouteHostnameOtherRewrite_path exact = HttpGatewayRoutePathRewriteImpl exact"

definition HttpGatewayRouteHostnameOtherRewrite_defaultPrefix :: "Default \<Rightarrow> HttpGatewayRouteHostnameOtherRewrite" where
  "HttpGatewayRouteHostnameOtherRewrite_defaultPrefix isDefault =
     HttpGatewayRoutePrefixRewriteImpl \<lparr> defaultPrefix = Some (Default_value isDefault), rewrite_value = None \<rparr>"

definition HttpGatewayRouteHostnameOtherRewrite_customPrefix :: "Default \<Rightarrow> HttpGatewayRouteHostnameOtherRewrite" where
  "HttpGatewayRouteHostnameOtherRewrite_customPrefix v =
     HttpGatewayRoutePrefixRewriteImpl \<lparr> defaultPrefix = None, rewrite_value = Some (Default_value v) \<rparr>"

fun HttpGatewayRouteHostnameOtherRewrite_bind ::
  "Construct \<Rightarrow> HttpGatewayRouteHostnameOtherRewrite \<Rightarrow> HttpGatewayRouteRewriteConfig" where
  "HttpGatewayRouteHostnameOtherRewrite_bind scope (HttpGatewayRoutePathRewriteImpl exact) =
     \<lparr> rewrite_hostname = None,
       rewrite_path = Some \<lparr> rewrite_exact = Some exact \<rparr>,
       rewrite_prefix = None \<rparr>"
| "HttpGatewayRouteHostnameOtherRewrite_bind scope (HttpGatewayRoutePrefixRewriteImpl prefixRewrite) =
     \<lparr> rewrite_hostname = None,
       rewrite_path = None,
       rewrite_prefix = Some prefixRewrite \<rparr>"

datatype HttpGatewayRouteRewrite =
    HttpGatewayRouteHostnameRewrite Default "HttpGatewayRouteHostnameRewriteOptions option"
  | HttpGatewayRoutePathRewrite string "HttpGatewayRoutePrefixRewriteOptions option"
  | HttpGatewayRoutePrefixRewrite HttpGatewayRoutePrefixRewriteProperty "HttpGatewayRoutePrefixRewriteOptions option"

definition HttpGatewayRouteRewrite_defaultHostname ::
  "Default \<Rightarrow> HttpGatewayRouteHostnameRewriteOptions option \<Rightarrow> HttpGatewayRouteRewrite" where
  "HttpGatewayRouteRewrite_defaultHostname isDefault options = HttpGatewayRouteHostnameRewrite isDefault options"

definition HttpGatewayRouteRewrite_path ::
  "string \<Rightarrow> HttpGatewayRoutePrefixRewriteOptions option \<Rightarrow> HttpGatewayRouteRewrite" where
  "HttpGatewayRouteRewrite_path exact options = HttpGatewayRoutePathRewrite exact options"

definition HttpGatewayRouteRewrite_defaultPrefix ::
  "Default \<Rightarrow> HttpGatewayRoutePrefixRewriteOptions option \<Rightarrow> HttpGatewayRouteRewrite" where
  "HttpGatewayRouteRewrite_defaultPrefix isDefault options =
     HttpGatewayRoutePrefixRewrite \<lparr> defaultPrefix = Some (Default_value isDefault), rewrite_value = None \<rparr> options"

definition HttpGatewayRouteRewrite_customPrefix ::
  "Default \<Rightarrow> HttpGatewayRoutePrefixRewriteOptions option \<Rightarrow> HttpGatewayRouteRewrite" where
  "HttpGatewayRouteRewrite_customPrefix v options =
     HttpGatewayRoutePrefixRewrite \<lparr> defaultPrefix = None, rewrite_value = Some (Default_value v) \<rparr> options"

fun HttpGatewayRouteRewrite_bind :: "Construct \<Rightarrow> HttpGatewayRouteRewrite \<Rightarrow> HttpGatewayRouteRewriteConfig" where
  "HttpGatewayRouteRewrite_bind scope (HttpGatewayRouteHostnameRewrite defaultTarget options) =
     (let rewrite = Option.bind options other in
      \<lparr> rewrite_hostname = Some \<lparr> defaultTargetHostname = Some (Default_value defaultTarget) \<rparr>,
        rewrite_path =
          (case rewrite of
             Some r \<Rightarrow> rewrite_path (HttpGatewayRouteHostnameOtherRewrite_bind scope r)
           | None \<Rightarrow> None),
        rewrite_prefix =
          (case rewrite of
             Some r \<Rightarrow> rewrite_prefix (HttpGatewayRouteHostnameOtherRewrite_bind scope r)
           | None \<Rightarrow> None) \<rparr>)"
| "HttpGatewayRouteRewrite_bind scope (HttpGatewayRoutePathRewrite exact options) =
     \<lparr> rewrite_hostname = Some \<lparr> defaultTargetHostname = Option.bind options opt_defaultTargetHostname \<rparr>,
       rewrite_path = Some \<lparr> rewrite_exact = Some exact \<rparr>,
       rewrite_prefix = None \<rparr>"
| "HttpGatewayRouteRewrite_bind scope (HttpGatewayRoutePrefixRewrite prefixRewrite options) =
     \<lparr> rewrite_hostname = Some \<lparr> defaultTargetHostname = Option.bind options opt_defaultTargetHostname \<rparr>,
       rewrite_path = None,
       rewrite_prefix = Some prefixRewrite \<rparr>"

subsection \<open>gRPC gateway route rewrite\<close>

record GrpcGatewayRouteRewriteConfig =
  grpc_rewrite_hostname :: "GatewayRouteHostnameRewriteProperty option"

datatype GrpcGatewayRouteRewrite = GrpcGatewayRouteRewriteImpl Default

definition GrpcGatewayRouteRewrite_defaultHostname :: "Default \<Rightarrow> GrpcGatewayRouteRewrite" where
  "GrpcGatewayRouteRewrite_defaultHostname isDefault = GrpcGatewayRouteRewriteImpl isDefault"

fun GrpcGatewayRouteRewrite_bind :: "Construct \<Rightarrow> GrpcGatewayRouteRewrite \<Rightarrow> GrpcGatewayRouteRewriteConfig" where
  "GrpcGatewayRouteRewrite_bind scope (GrpcGatewayRouteRewriteImpl defaultTarget) =
     \<lparr> grpc_rewrite_hostname = Some \<lparr> defaultTargetHostname = Some (Default_value defaultTarget) \<rparr> \<rparr>"

subsection \<open>Gateway route specs\<close>

record HttpGatewayRouteSpecOptions =
  opt_match :: "HttpGatewayRouteMatch option"
  opt_routeTarget :: IVirtualService
  opt_rewrite :: "HttpGatewayRouteRewrite option"

record GrpcGatewayRouteSpecOptions =
  grpc_opt_match :: GrpcGatewayRouteMatch
  grpc_opt_routeTarget :: IVirtualService
  grpc_opt_rewrite :: "GrpcGatewayRouteRewrite option"

record GatewayRouteSpecConfig =
  httpSpecConfig :: "HttpGatewayRouteProperty option"
  http2SpecConfig :: "HttpGatewayRouteProperty option"
  grpcSpecConfig :: "GrpcGatewayRouteProperty option"

text \<open>The fields of an instance of each of the two spec classes.\<close>

record HttpGatewayRouteSpec_fields =
  this_match :: "HttpGatewayRouteMatch option"
  this_routeTarget :: IVirtualService
  this_routeType :: Protocol
  this_rewrite :: "HttpGatewayRouteRewrite option"

record GrpcGatewayRouteSpec_fields =
  grpc_this_match :: GrpcGatewayRouteMatch
  grpc_this_routeTarget :: IVirtualService
  grpc_this_rewrite :: "GrpcGatewayRouteRewrite option"

text \<open>
  The two constructors. The one of the gRPC class assigns \<open>match\<close> and \<open>routeTarget\<close>
  and nothing else, so the \<open>rewrite\<close> field of the instance stays undefined.
\<close>

definition new_HttpGatewayRouteSpec :: "HttpGatewayRouteSpecOptions \<Rightarrow> Protocol \<Rightarrow> HttpGatewayRouteSpec_fields" where
  "new_HttpGatewayRouteSpec options protocol = \<lparr>
     this_match = opt_match options,
     this_routeTarget = opt_routeTarget options,
     this_routeType = protocol,
     this_rewrite = opt_rewrite options \<rparr>"

definition new_GrpcGatewayRouteSpec :: "GrpcGatewayRouteSpecOptions \<Rightarrow> GrpcGatewayRouteSpec_fields" where
  "new_GrpcGatewayRouteSpec options = \<lparr>
     grpc_this_match = grpc_opt_match options,
     grpc_this_routeTarget = grpc_opt_routeTarget options,
     grpc_this_rewrite = None \<rparr>"

text \<open>
  A \<open>GatewayRouteSpec\<close> is an instance of one of the two classes; the three static
  factories are the only way the module offers to make one.
\<close>

datatype GatewayRouteSpec =
    HttpGatewayRouteSpec HttpGatewayRouteSpec_fields
  | GrpcGatewayRouteSpec GrpcGatewayRouteSpec_fields

definition GatewayRouteSpec_http :: "HttpGatewayRouteSpecOptions \<Rightarrow> GatewayRouteSpec" where
  "GatewayRouteSpec_http options = HttpGatewayRouteSpec (new_HttpGatewayRouteSpec options HTTP)"

definition GatewayRouteSpec_http2 :: "HttpGatewayRouteSpecOptions \<Rightarrow> GatewayRouteSpec" where
  "GatewayRouteSpec_http2 options = HttpGatewayRouteSpec (new_HttpGatewayRouteSpec options HTTP2)"

definition GatewayRouteSpec_grpc :: "GrpcGatewayRouteSpecOptions \<Rightarrow> GatewayRouteSpec" where
  "GatewayRouteSpec_grpc options = GrpcGatewayRouteSpec (new_GrpcGatewayRouteSpec options)"

text \<open>
  \<open>s[i]\<close> on a string is the character at \<open>i\<close>, or undefined past the end; a template
  literal prints an absent value as \<open>undefined\<close>.
\<close>

definition char_at :: "string \<Rightarrow> nat \<Rightarrow> char option" where
  "char_at s i = (if i < length s then Some (s ! i) else None)"

fun template_string :: "string option \<Rightarrow> string" where
  "template_string None = ''undefined''"
| "template_string (Some s) = s"

text \<open>
  The three values \<open>bind\<close> of the HTTP class derives before it checks anything:
  \<open>prefixPath\<close>, its local constant, and the two expressions it repeats,
  \<open>this.match?.bind(scope).requestMatch.prefix\<close> and \<open>this.rewrite?.bind(scope)\<close>.
\<close>

definition prefixPath :: "Construct \<Rightarrow> HttpGatewayRouteSpec_fields \<Rightarrow> string option" where
  "prefixPath scope this =
     (case this_match this of
        Some m \<Rightarrow> prefix (requestMatch (HttpGatewayRouteMatch_bind scope m))
      | None \<Rightarrow> Some ''/'')"

definition match_requestMatch :: "Construct \<Rightarrow> HttpGatewayRouteSpec_fields \<Rightarrow> HttpGatewayRouteMatchProperty option" where
  "match_requestMatch scope this =
     map_option (\<lambda>m. requestMatch (HttpGatewayRouteMatch_bind scope m)) (this_match this)"

definition rewrite_bound :: "Construct \<Rightarrow> HttpGatewayRouteSpec_fields \<Rightarrow> HttpGatewayRouteRewriteConfig option" where
  "rewrite_bound scope this = map_option (HttpGatewayRouteRewrite_bind scope) (this_rewrite this)"

text \<open>The local constant \<open>httpConfig\<close> of the same method, built once the checks have passed.\<close>

definition httpConfig :: "Construct \<Rightarrow> HttpGatewayRouteSpec_fields \<Rightarrow> HttpGatewayRouteProperty" where
  "httpConfig scope this = \<lparr>
     http_match = \<lparr>
       prefix = prefixPath scope this,
       headers = Option.bind (match_requestMatch scope this) headers,
       hostname = Option.bind (match_requestMatch scope this) hostname,
       request_method = Option.bind (match_requestMatch scope this) request_method,
       path = Option.bind (match_requestMatch scope this) path,
       queryParameters = Option.bind (match_requestMatch scope this) queryParameters \<rparr>,
     http_action = \<lparr>
       http_target = \<lparr> virtualService = \<lparr>
         target_virtualServiceName = virtualServiceName (this_routeTarget this) \<rparr> \<rparr>,
       http_rewrite =
         (case this_rewrite this of
            Some r \<Rightarrow> Some \<lparr>
              action_hostname = rewrite_hostname (HttpGatewayRouteRewrite_bind scope r),
              action_path = rewrite_path (HttpGatewayRouteRewrite_bind scope r),
              action_prefix = rewrite_prefix (HttpGatewayRouteRewrite_bind scope r) \<rparr>
          | None \<Rightarrow> None) \<rparr> \<rparr>"

definition HttpGatewayRouteSpec_bind :: "Construct \<Rightarrow> HttpGatewayRouteSpec_fields \<Rightarrow> error + GatewayRouteSpecConfig" where
  "HttpGatewayRouteSpec_bind scope this =
     (if truthy_string (prefixPath scope this)
         \<and> Option.bind (prefixPath scope this) (\<lambda>p. char_at p 0) \<noteq> Some (CHR ''/'')
      then Inl (InvalidPrefixFormat (template_string (prefixPath scope this)))
      else if truthy_object (Option.bind (rewrite_bound scope this) rewrite_prefix)
         \<and> \<not> truthy_string (Option.bind (match_requestMatch scope this) prefix)
      then Inl PrefixRewriteRequiresPrefixMatch
      else if truthy_object (Option.bind (rewrite_bound scope this) rewrite_path)
         \<and> truthy_string (Option.bind (match_requestMatch scope this) prefix)
      then Inl PathRewriteConflictsWithPrefixMatch
      else Inr \<lparr>
        httpSpecConfig = (if this_routeType this = HTTP then Some (httpConfig scope this) else None),
        http2SpecConfig = (if this_routeType this = HTTP2 then Some (httpConfig scope this) else None),
        grpcSpecConfig = None \<rparr>)"

definition GrpcGatewayRouteSpec_bind :: "Construct \<Rightarrow> GrpcGatewayRouteSpec_fields \<Rightarrow> error + GatewayRouteSpecConfig" where
  "GrpcGatewayRouteSpec_bind scope this =
     Inr \<lparr>
       httpSpecConfig = None,
       http2SpecConfig = None,
       grpcSpecConfig = Some \<lparr>
         grpc_action = \<lparr>
           grpc_target = \<lparr> virtualService = \<lparr>
             target_virtualServiceName = virtualServiceName (grpc_this_routeTarget this) \<rparr> \<rparr>,
           grpc_rewrite =
             (case grpc_this_rewrite this of
                Some r \<Rightarrow> Some \<lparr>
                  grpc_action_hostname = grpc_rewrite_hostname (GrpcGatewayRouteRewrite_bind scope r) \<rparr>
              | None \<Rightarrow> None) \<rparr>,
         grpc_match = grpc_requestMatch (GrpcGatewayRouteMatch_bind scope (grpc_this_match this)) \<rparr> \<rparr>"

text \<open>\<open>bind\<close> is abstract in \<open>GatewayRouteSpec\<close>; a call runs the method of the instance's class.\<close>

fun GatewayRouteSpec_bind :: "Construct \<Rightarrow> GatewayRouteSpec \<Rightarrow> error + GatewayRouteSpecConfig" where
  "GatewayRouteSpec_bind scope (HttpGatewayRouteSpec this) = HttpGatewayRouteSpec_bind scope this"
| "GatewayRouteSpec_bind scope (GrpcGatewayRouteSpec this) = GrpcGatewayRouteSpec_bind scope this"

section \<open>Concrete specs\<close>

text \<open>
  The scenarios of the specification's list of testable properties that the code can
  express, and a few more specs, as the options a caller hands to a factory.
\<close>

definition example_scope :: Construct where
  "example_scope = Construct ''stack''"

definition example_target :: IVirtualService where
  "example_target = \<lparr> virtualServiceName = ''backend.local'' \<rparr>"

definition no_path_options :: HttpGatewayRoutePathMatchOptions where
  "no_path_options = \<lparr> pathOpt_headers = None, pathOpt_method = None, pathOpt_hostname = None,
     pathOpt_queryParameters = None \<rparr>"

text \<open>Scenario A: a prefix match on \<open>/metrics\<close>, no rewrite.\<close>

definition scenario_A :: HttpGatewayRouteSpecOptions where
  "scenario_A = \<lparr>
     opt_match = Some (HttpGatewayRouteMatch_prefix ''/metrics'' None),
     opt_routeTarget = example_target,
     opt_rewrite = None \<rparr>"

text \<open>Scenario C: an exact path match on \<open>/health\<close> with a path rewrite to \<open>/check\<close>.\<close>

definition scenario_C :: HttpGatewayRouteSpecOptions where
  "scenario_C = \<lparr>
     opt_match = Some (HttpGatewayRouteMatch_path (HttpPathMatch_matchingExactly ''/health'') no_path_options),
     opt_routeTarget = example_target,
     opt_rewrite = Some (HttpGatewayRouteRewrite_path ''/check'' None) \<rparr>"

text \<open>Scenario D: the same path match with a default prefix rewrite.\<close>

definition scenario_D :: HttpGatewayRouteSpecOptions where
  "scenario_D = \<lparr>
     opt_match = Some (HttpGatewayRouteMatch_path (HttpPathMatch_matchingExactly ''/health'') no_path_options),
     opt_routeTarget = example_target,
     opt_rewrite = Some (HttpGatewayRouteRewrite_defaultPrefix ENABLED None) \<rparr>"

text \<open>Scenario E: a gRPC service name match with the default host name rewrite disabled.\<close>

definition scenario_E :: GrpcGatewayRouteSpecOptions where
  "scenario_E = \<lparr>
     grpc_opt_match = GrpcGatewayRouteMatch_serviceName ''billing.v1'' None,
     grpc_opt_routeTarget = example_target,
     grpc_opt_rewrite = Some (GrpcGatewayRouteRewrite_defaultHostname DISABLED) \<rparr>"

text \<open>A match on one header and nothing else, no rewrite.\<close>

definition header_only :: HttpGatewayRouteSpecOptions where
  "header_only = \<lparr>
     opt_match = Some (HttpGatewayRouteMatch_header
       [HeaderMatchImpl ''x-env'' False (no_match_method\<lparr> metadata_exact := Some ''prod'' \<rparr>)] None),
     opt_routeTarget = example_target,
     opt_rewrite = None \<rparr>"

text \<open>A prefix match whose prefix lacks the leading slash, alone and with a path rewrite.\<close>

definition unrooted_prefix :: HttpGatewayRouteSpecOptions where
  "unrooted_prefix = \<lparr>
     opt_match = Some (HttpGatewayRouteMatch_prefix ''metrics'' None),
     opt_routeTarget = example_target,
     opt_rewrite = None \<rparr>"

definition unrooted_prefix_path_rewrite :: HttpGatewayRouteSpecOptions where
  "unrooted_prefix_path_rewrite = \<lparr>
     opt_match = Some (HttpGatewayRouteMatch_prefix ''api'' None),
     opt_routeTarget = example_target,
     opt_rewrite = Some (HttpGatewayRouteRewrite_path ''/check'' None) \<rparr>"

text \<open>A prefix match on \<open>/api\<close>, with a path rewrite and with a custom prefix rewrite.\<close>

definition prefix_match_path_rewrite :: HttpGatewayRouteSpecOptions where
  "prefix_match_path_rewrite = \<lparr>
     opt_match = Some (HttpGatewayRouteMatch_prefix ''/api'' None),
     opt_routeTarget = example_target,
     opt_rewrite = Some (HttpGatewayRouteRewrite_path ''/check'' None) \<rparr>"

definition prefix_match_prefix_rewrite :: HttpGatewayRouteSpecOptions where
  "prefix_match_prefix_rewrite = \<lparr>
     opt_match = Some (HttpGatewayRouteMatch_prefix ''/api'' None),
     opt_routeTarget = example_target,
     opt_rewrite = Some (HttpGatewayRouteRewrite_customPrefix ENABLED None) \<rparr>"

text \<open>No match at all, with a path rewrite and with a default prefix rewrite.\<close>

definition no_match_path_rewrite :: HttpGatewayRouteSpecOptions where
  "no_match_path_rewrite = \<lparr>
     opt_match = None,
     opt_routeTarget = example_target,
     opt_rewrite = Some (HttpGatewayRouteRewrite_path ''/check'' None) \<rparr>"


text \<open>A trust with two certificate authorities.\<close>

definition two_authorities :: TlsValidationAcmTrustOptions where
  "two_authorities = \<lparr> certificateAuthorities =
     [\<lparr> certificateAuthorityArn = ''arn:ca-1'' \<rparr>, \<lparr> certificateAuthorityArn = ''arn:ca-2'' \<rparr>] \<rparr>"

section \<open>Properties\<close>

subsection \<open>The checks of the HTTP spec, one at a time\<close>

lemma HttpGatewayRouteSpec_bind_Inr:
  assumes "HttpGatewayRouteSpec_bind scope this = Inr cfg"
  shows "cfg = \<lparr>
        httpSpecConfig = (if this_routeType this = HTTP then Some (httpConfig scope this) else None),
        http2SpecConfig = (if this_routeType this = HTTP2 then Some (httpConfig scope this) else None),
        grpcSpecConfig = None \<rparr>"
  using assms unfolding HttpGatewayRouteSpec_bind_def
  by (simp split: if_splits)

lemma format_check_fails:
  assumes "prefixPath scope this = Some (c # s)" and "c \<noteq> CHR ''/''"
  shows "HttpGatewayRouteSpec_bind scope this = Inl (InvalidPrefixFormat (c # s))"
  using assms by (simp add: HttpGatewayRouteSpec_bind_def char_at_def)

lemma format_check_passes:
  assumes "prefixPath scope this = None \<or> (\<exists>s. prefixPath scope this = Some (CHR ''/'' # s))"
  shows "HttpGatewayRouteSpec_bind scope this \<noteq> Inl (InvalidPrefixFormat q)"
proof -
  have n: "\<not> (truthy_string (prefixPath scope this)
         \<and> Option.bind (prefixPath scope this) (\<lambda>p. char_at p 0) \<noteq> Some (CHR ''/''))"
    using assms by (auto simp: char_at_def)
  show ?thesis
    unfolding HttpGatewayRouteSpec_bind_def if_not_P [OF n] by simp
qed

text \<open>
  C9. For a trust made by \<open>TlsValidationTrust.acm\<close>, \<open>bind\<close> throws exactly when the list
  of certificate authorities is empty; with a non-empty list it returns a trust whose
  \<open>acm.certificateAuthorityArns\<close> is the list of the authorities' ARNs, in order.
\<close>

theorem C9_acm_trust_bind:
  "((\<exists>e. TlsValidationTrust_bind scope (TlsValidationTrust_acm props) = Inl e)
      \<longleftrightarrow> certificateAuthorities props = [])
   \<and> (certificateAuthorities props \<noteq> [] \<longrightarrow>
        TlsValidationTrust_bind scope (TlsValidationTrust_acm props) =
          Inr \<lparr> tlsValidationTrust = \<lparr>
            trust_acm = Some \<lparr> certificateAuthorityArns =
              map certificateAuthorityArn (certificateAuthorities props) \<rparr>,
            trust_file = None, trust_sds = None \<rparr> \<rparr>)"
  by (simp add: TlsValidationTrust_acm_def)

theorem C9_acm_trust_bind_witness:
  "certificateAuthorities two_authorities \<noteq> []
   \<and> TlsValidationTrust_bind example_scope (TlsValidationTrust_acm two_authorities) =
       Inr \<lparr> tlsValidationTrust = \<lparr>
         trust_acm = Some \<lparr> certificateAuthorityArns = [''arn:ca-1'', ''arn:ca-2''] \<rparr>,
         trust_file = None, trust_sds = None \<rparr> \<rparr>
   \<and> (\<exists>e. TlsValidationTrust_bind example_scope
         (TlsValidationTrust_acm \<lparr> certificateAuthorities = [] \<rparr>) = Inl e)"
proof -
  have ne: "certificateAuthorities two_authorities \<noteq> []"
    by (simp add: two_authorities_def)
  have arns: "map certificateAuthorityArn (certificateAuthorities two_authorities) = [''arn:ca-1'', ''arn:ca-2'']"
    by (simp add: two_authorities_def)
  from C9_acm_trust_bind [of example_scope two_authorities] ne arns
  have ok: "TlsValidationTrust_bind example_scope (TlsValidationTrust_acm two_authorities) =
       Inr \<lparr> tlsValidationTrust = \<lparr>
         trust_acm = Some \<lparr> certificateAuthorityArns = [''arn:ca-1'', ''arn:ca-2''] \<rparr>,
         trust_file = None, trust_sds = None \<rparr> \<rparr>"
    by simp
  have "certificateAuthorities \<lparr> certificateAuthorities = [] \<rparr> = []"
    by simp
  with C9_acm_trust_bind [of example_scope "\<lparr> certificateAuthorities = [] \<rparr>"]
  have "\<exists>e. TlsValidationTrust_bind example_scope
         (TlsValidationTrust_acm \<lparr> certificateAuthorities = [] \<rparr>) = Inl e"
    by blast
  with ne ok show ?thesis by blast
qed

text \<open>
  C2. When \<open>bind\<close> of a spec made by one of the three factories succeeds, exactly the
  output slot of that factory's protocol is populated and the other two are absent.
\<close>

theorem C2_exactly_one_slot:
  "(GatewayRouteSpec_bind scope (GatewayRouteSpec_http options) = Inr cfg \<longrightarrow>
      httpSpecConfig cfg \<noteq> None \<and> http2SpecConfig cfg = None \<and> grpcSpecConfig cfg = None)
   \<and> (GatewayRouteSpec_bind scope (GatewayRouteSpec_http2 options) = Inr cfg \<longrightarrow>
      httpSpecConfig cfg = None \<and> http2SpecConfig cfg \<noteq> None \<and> grpcSpecConfig cfg = None)
   \<and> (GatewayRouteSpec_bind scope (GatewayRouteSpec_grpc goptions) = Inr cfg \<longrightarrow>
      httpSpecConfig cfg = None \<and> http2SpecConfig cfg = None \<and> grpcSpecConfig cfg \<noteq> None)"
proof (intro conjI impI)
  assume "GatewayRouteSpec_bind scope (GatewayRouteSpec_http options) = Inr cfg"
  then have "HttpGatewayRouteSpec_bind scope (new_HttpGatewayRouteSpec options HTTP) = Inr cfg"
    by (simp add: GatewayRouteSpec_http_def)
  from HttpGatewayRouteSpec_bind_Inr [OF this]
  have c: "cfg = \<lparr> httpSpecConfig = Some (httpConfig scope (new_HttpGatewayRouteSpec options HTTP)),
      http2SpecConfig = None, grpcSpecConfig = None \<rparr>"
    by (simp add: new_HttpGatewayRouteSpec_def)
  show "httpSpecConfig cfg \<noteq> None" "http2SpecConfig cfg = None" "grpcSpecConfig cfg = None"
    by (simp_all add: c)
next
  assume "GatewayRouteSpec_bind scope (GatewayRouteSpec_http2 options) = Inr cfg"
  then have "HttpGatewayRouteSpec_bind scope (new_HttpGatewayRouteSpec options HTTP2) = Inr cfg"
    by (simp add: GatewayRouteSpec_http2_def)
  from HttpGatewayRouteSpec_bind_Inr [OF this]
  have c: "cfg = \<lparr> httpSpecConfig = None,
      http2SpecConfig = Some (httpConfig scope (new_HttpGatewayRouteSpec options HTTP2)),
      grpcSpecConfig = None \<rparr>"
    by (simp add: new_HttpGatewayRouteSpec_def)
  show "httpSpecConfig cfg = None" "http2SpecConfig cfg \<noteq> None" "grpcSpecConfig cfg = None"
    by (simp_all add: c)
next
  assume "GatewayRouteSpec_bind scope (GatewayRouteSpec_grpc goptions) = Inr cfg"
  then have c: "GrpcGatewayRouteSpec_bind scope (new_GrpcGatewayRouteSpec goptions) = Inr cfg"
    by (simp add: GatewayRouteSpec_grpc_def)
  show "httpSpecConfig cfg = None" "http2SpecConfig cfg = None" "grpcSpecConfig cfg \<noteq> None"
    using c unfolding GrpcGatewayRouteSpec_bind_def by auto
qed

lemma concrete_bind_A:
  "HttpGatewayRouteSpec_bind example_scope (new_HttpGatewayRouteSpec scenario_A HTTP) =
     Inr \<lparr> httpSpecConfig = Some (httpConfig example_scope (new_HttpGatewayRouteSpec scenario_A HTTP)),
       http2SpecConfig = None, grpcSpecConfig = None \<rparr>"
  by (simp add: HttpGatewayRouteSpec_bind_def prefixPath_def match_requestMatch_def rewrite_bound_def
      char_at_def new_HttpGatewayRouteSpec_def scenario_A_def HttpGatewayRouteMatch_prefix_def)

lemma concrete_bind_C:
  "HttpGatewayRouteSpec_bind example_scope (new_HttpGatewayRouteSpec scenario_C HTTP2) =
     Inr \<lparr> httpSpecConfig = None,
       http2SpecConfig = Some (httpConfig example_scope (new_HttpGatewayRouteSpec scenario_C HTTP2)),
       grpcSpecConfig = None \<rparr>"
  by (simp add: HttpGatewayRouteSpec_bind_def prefixPath_def match_requestMatch_def rewrite_bound_def
      char_at_def new_HttpGatewayRouteSpec_def scenario_C_def HttpGatewayRouteMatch_path_def
      HttpGatewayRouteRewrite_path_def)

theorem C2_exactly_one_slot_witness:
  "GatewayRouteSpec_bind example_scope (GatewayRouteSpec_http scenario_A) =
     Inr \<lparr> httpSpecConfig = Some (httpConfig example_scope (new_HttpGatewayRouteSpec scenario_A HTTP)),
       http2SpecConfig = None, grpcSpecConfig = None \<rparr>
   \<and> GatewayRouteSpec_bind example_scope (GatewayRouteSpec_http2 scenario_C) =
     Inr \<lparr> httpSpecConfig = None,
       http2SpecConfig = Some (httpConfig example_scope (new_HttpGatewayRouteSpec scenario_C HTTP2)),
       grpcSpecConfig = None \<rparr>
   \<and> \<not> isl (GatewayRouteSpec_bind example_scope (GatewayRouteSpec_grpc scenario_E))
   \<and> httpSpecConfig (projr (GatewayRouteSpec_bind example_scope (GatewayRouteSpec_grpc scenario_E))) = None
   \<and> http2SpecConfig (projr (GatewayRouteSpec_bind example_scope (GatewayRouteSpec_grpc scenario_E))) = None
   \<and> grpcSpecConfig (projr (GatewayRouteSpec_bind example_scope (GatewayRouteSpec_grpc scenario_E))) \<noteq> None"
proof -
  have a: "GatewayRouteSpec_bind example_scope (GatewayRouteSpec_http scenario_A) =
     Inr \<lparr> httpSpecConfig = Some (httpConfig example_scope (new_HttpGatewayRouteSpec scenario_A HTTP)),
       http2SpecConfig = None, grpcSpecConfig = None \<rparr>"
    by (simp add: GatewayRouteSpec_http_def concrete_bind_A)
  have c: "GatewayRouteSpec_bind example_scope (GatewayRouteSpec_http2 scenario_C) =
     Inr \<lparr> httpSpecConfig = None,
       http2SpecConfig = Some (httpConfig example_scope (new_HttpGatewayRouteSpec scenario_C HTTP2)),
       grpcSpecConfig = None \<rparr>"
    by (simp add: GatewayRouteSpec_http2_def concrete_bind_C)
  obtain g where e: "GatewayRouteSpec_bind example_scope (GatewayRouteSpec_grpc scenario_E) = Inr g"
    by (simp add: GatewayRouteSpec_grpc_def GrpcGatewayRouteSpec_bind_def)
  let ?a = "\<lparr> httpSpecConfig = Some (httpConfig example_scope (new_HttpGatewayRouteSpec scenario_A HTTP)),
       http2SpecConfig = None, grpcSpecConfig = None \<rparr>"
  let ?c = "\<lparr> httpSpecConfig = None,
       http2SpecConfig = Some (httpConfig example_scope (new_HttpGatewayRouteSpec scenario_C HTTP2)),
       grpcSpecConfig = None \<rparr>"
  from C2_exactly_one_slot [of example_scope scenario_A ?a scenario_E] a
  have sa: "httpSpecConfig ?a \<noteq> None \<and> http2SpecConfig ?a = None \<and> grpcSpecConfig ?a = None"
    by (elim conjE) (erule (1) mp)
  from C2_exactly_one_slot [of example_scope scenario_C ?c scenario_E] c
  have sc: "httpSpecConfig ?c = None \<and> http2SpecConfig ?c \<noteq> None \<and> grpcSpecConfig ?c = None"
    by (elim conjE) (erule (1) mp)
  from C2_exactly_one_slot [of example_scope scenario_A g scenario_E] e
  have sg: "httpSpecConfig g = None \<and> http2SpecConfig g = None \<and> grpcSpecConfig g \<noteq> None"
    by (elim conjE) (erule (1) mp)
  from sa sc sg a c e show ?thesis by simp
qed

lemma supplied_prefix_None:
  assumes "prefixPath scope this = None"
  shows "Option.bind (match_requestMatch scope this) prefix = None"
  using assms by (cases "this_match this") (simp_all add: prefixPath_def match_requestMatch_def)

lemma prefix_rewrite_bound:
  assumes "this_rewrite this = Some rw"
    and "rw = HttpGatewayRouteRewrite_defaultPrefix d ro
       \<or> rw = HttpGatewayRouteRewrite_customPrefix d ro
       \<or> rw = HttpGatewayRouteRewrite_defaultHostname h
            (Some \<lparr> other = Some (HttpGatewayRouteHostnameOtherRewrite_defaultPrefix d) \<rparr>)
       \<or> rw = HttpGatewayRouteRewrite_defaultHostname h
            (Some \<lparr> other = Some (HttpGatewayRouteHostnameOtherRewrite_customPrefix d) \<rparr>)"
  shows "truthy_object (Option.bind (rewrite_bound scope this) rewrite_prefix)"
proof -
  from assms(2) have "rewrite_prefix (HttpGatewayRouteRewrite_bind scope rw) \<noteq> None"
    by (elim disjE)
      (simp_all add: HttpGatewayRouteRewrite_defaultPrefix_def HttpGatewayRouteRewrite_customPrefix_def
        HttpGatewayRouteRewrite_defaultHostname_def HttpGatewayRouteHostnameOtherRewrite_defaultPrefix_def
        HttpGatewayRouteHostnameOtherRewrite_customPrefix_def)
  then obtain pr where "rewrite_prefix (HttpGatewayRouteRewrite_bind scope rw) = Some pr"
    by blast
  with assms(1) show ?thesis
    by (simp add: rewrite_bound_def)
qed

lemma pairing_prefix_fails:
  assumes "prefixPath scope this = None \<or> prefixPath scope this = Some ''/''"
    and "truthy_object (Option.bind (rewrite_bound scope this) rewrite_prefix)"
    and "Option.bind (match_requestMatch scope this) prefix = None"
  shows "HttpGatewayRouteSpec_bind scope this = Inl PrefixRewriteRequiresPrefixMatch"
proof -
  have n: "\<not> (truthy_string (prefixPath scope this)
         \<and> Option.bind (prefixPath scope this) (\<lambda>p. char_at p 0) \<noteq> Some (CHR ''/''))"
    using assms(1) by (auto simp: char_at_def)
  have y: "truthy_object (Option.bind (rewrite_bound scope this) rewrite_prefix)
         \<and> \<not> truthy_string (Option.bind (match_requestMatch scope this) prefix)"
    using assms(2,3) by simp
  show ?thesis
    unfolding HttpGatewayRouteSpec_bind_def if_not_P [OF n] if_P [OF y] by (rule refl)
qed

text \<open>
  C3. A spec whose resolved prefix is a non-empty string that does not start with a slash
  fails with \<open>InvalidPrefixFormat\<close>; a spec whose resolved prefix is absent or starts with a
  slash passes that check.
\<close>

theorem C3_prefix_format_check:
  "(prefixPath scope this = Some p \<and> p \<noteq> [] \<and> hd p \<noteq> CHR ''/'' \<longrightarrow>
      GatewayRouteSpec_bind scope (HttpGatewayRouteSpec this) = Inl (InvalidPrefixFormat p))
   \<and> (prefixPath scope this = None \<or> (\<exists>s. prefixPath scope this = Some (CHR ''/'' # s)) \<longrightarrow>
      GatewayRouteSpec_bind scope (HttpGatewayRouteSpec this) \<noteq> Inl (InvalidPrefixFormat q))"
proof (intro conjI impI)
  assume a: "prefixPath scope this = Some p \<and> p \<noteq> [] \<and> hd p \<noteq> CHR ''/''"
  then obtain c s where p: "p = c # s" and c: "c \<noteq> CHR ''/''"
    by (cases p) auto
  from a p have "prefixPath scope this = Some (c # s)" by simp
  from format_check_fails [OF this c] p
  show "GatewayRouteSpec_bind scope (HttpGatewayRouteSpec this) = Inl (InvalidPrefixFormat p)"
    by simp
next
  assume "prefixPath scope this = None \<or> (\<exists>s. prefixPath scope this = Some (CHR ''/'' # s))"
  from format_check_passes [OF this]
  show "GatewayRouteSpec_bind scope (HttpGatewayRouteSpec this) \<noteq> Inl (InvalidPrefixFormat q)"
    by simp
qed

lemma prefixPath_unrooted_prefix:
  "prefixPath example_scope (new_HttpGatewayRouteSpec unrooted_prefix HTTP2) = Some ''metrics''"
  by (simp add: prefixPath_def new_HttpGatewayRouteSpec_def unrooted_prefix_def HttpGatewayRouteMatch_prefix_def)

lemma prefixPath_scenario_A:
  "prefixPath example_scope (new_HttpGatewayRouteSpec scenario_A HTTP) = Some ''/metrics''"
  by (simp add: prefixPath_def new_HttpGatewayRouteSpec_def scenario_A_def HttpGatewayRouteMatch_prefix_def)

theorem C3_prefix_format_check_witness:
  "prefixPath example_scope (new_HttpGatewayRouteSpec unrooted_prefix HTTP2) = Some ''metrics''
   \<and> GatewayRouteSpec_bind example_scope (GatewayRouteSpec_http2 unrooted_prefix) =
       Inl (InvalidPrefixFormat ''metrics'')
   \<and> prefixPath example_scope (new_HttpGatewayRouteSpec scenario_A HTTP) = Some ''/metrics''
   \<and> GatewayRouteSpec_bind example_scope (GatewayRouteSpec_http scenario_A) \<noteq>
       Inl (InvalidPrefixFormat ''/metrics'')"
proof -
  have h1: "prefixPath example_scope (new_HttpGatewayRouteSpec unrooted_prefix HTTP2) = Some ''metrics''
      \<and> ''metrics'' \<noteq> [] \<and> hd ''metrics'' \<noteq> CHR ''/''"
    by (simp add: prefixPath_unrooted_prefix)
  from C3_prefix_format_check [of example_scope "new_HttpGatewayRouteSpec unrooted_prefix HTTP2" "''metrics''"] h1
  have r1: "GatewayRouteSpec_bind example_scope (GatewayRouteSpec_http2 unrooted_prefix) =
       Inl (InvalidPrefixFormat ''metrics'')"
    unfolding GatewayRouteSpec_http2_def by blast
  have h2: "prefixPath example_scope (new_HttpGatewayRouteSpec scenario_A HTTP) = None
      \<or> (\<exists>s. prefixPath example_scope (new_HttpGatewayRouteSpec scenario_A HTTP) = Some (CHR ''/'' # s))"
    by (simp add: prefixPath_scenario_A)
  from C3_prefix_format_check [of example_scope "new_HttpGatewayRouteSpec scenario_A HTTP" _ "''/metrics''"] h2
  have r2: "GatewayRouteSpec_bind example_scope (GatewayRouteSpec_http scenario_A) \<noteq>
       Inl (InvalidPrefixFormat ''/metrics'')"
    unfolding GatewayRouteSpec_http_def by blast
  from h1 r1 r2 prefixPath_scenario_A show ?thesis by blast
qed

text \<open>
  C4. A spec with a prefix rewrite (\<open>defaultPrefix\<close> or \<open>customPrefix\<close>, given directly or
  beside a host name rewrite) whose resolved match has no prefix fails with
  \<open>PrefixRewriteRequiresPrefixMatch\<close>; the result is the error alone.
\<close>

theorem C4_prefix_rewrite_requires_prefix_match:
  assumes "this_rewrite this = Some rw"
    and "rw = HttpGatewayRouteRewrite_defaultPrefix d ro
       \<or> rw = HttpGatewayRouteRewrite_customPrefix d ro
       \<or> rw = HttpGatewayRouteRewrite_defaultHostname h
            (Some \<lparr> other = Some (HttpGatewayRouteHostnameOtherRewrite_defaultPrefix d) \<rparr>)
       \<or> rw = HttpGatewayRouteRewrite_defaultHostname h
            (Some \<lparr> other = Some (HttpGatewayRouteHostnameOtherRewrite_customPrefix d) \<rparr>)"
    and "prefixPath scope this = None"
  shows "GatewayRouteSpec_bind scope (HttpGatewayRouteSpec this) = Inl PrefixRewriteRequiresPrefixMatch"
proof -
  have "HttpGatewayRouteSpec_bind scope this = Inl PrefixRewriteRequiresPrefixMatch"
    using assms(3) prefix_rewrite_bound [OF assms(1,2)] supplied_prefix_None [OF assms(3)]
    by (intro pairing_prefix_fails) simp_all
  then show ?thesis by simp
qed

lemma prefixPath_scenario_D:
  "prefixPath example_scope (new_HttpGatewayRouteSpec scenario_D HTTP) = None"
  by (simp add: prefixPath_def new_HttpGatewayRouteSpec_def scenario_D_def HttpGatewayRouteMatch_path_def)

theorem C4_prefix_rewrite_requires_prefix_match_witness:
  "this_rewrite (new_HttpGatewayRouteSpec scenario_D HTTP) = Some (HttpGatewayRouteRewrite_defaultPrefix ENABLED None)
   \<and> prefixPath example_scope (new_HttpGatewayRouteSpec scenario_D HTTP) = None
   \<and> GatewayRouteSpec_bind example_scope (GatewayRouteSpec_http scenario_D) =
       Inl PrefixRewriteRequiresPrefixMatch"
proof -
  have r: "this_rewrite (new_HttpGatewayRouteSpec scenario_D HTTP) =
      Some (HttpGatewayRouteRewrite_defaultPrefix ENABLED None)"
    by (simp add: new_HttpGatewayRouteSpec_def scenario_D_def)
  have "GatewayRouteSpec_bind example_scope (HttpGatewayRouteSpec (new_HttpGatewayRouteSpec scenario_D HTTP)) =
       Inl PrefixRewriteRequiresPrefixMatch"
    by (rule C4_prefix_rewrite_requires_prefix_match [OF r _ prefixPath_scenario_D, of ENABLED None]) simp
  with r prefixPath_scenario_D show ?thesis
    by (simp add: GatewayRouteSpec_http_def)
qed

lemma path_rewrite_bound:
  assumes "this_rewrite this = Some rw"
    and "rw = HttpGatewayRouteRewrite_path exact ro
       \<or> rw = HttpGatewayRouteRewrite_defaultHostname h
            (Some \<lparr> other = Some (HttpGatewayRouteHostnameOtherRewrite_path exact) \<rparr>)"
  shows "truthy_object (Option.bind (rewrite_bound scope this) rewrite_path)"
proof -
  from assms(2) have "rewrite_path (HttpGatewayRouteRewrite_bind scope rw) \<noteq> None"
    by (elim disjE)
      (simp_all add: HttpGatewayRouteRewrite_path_def HttpGatewayRouteRewrite_defaultHostname_def
        HttpGatewayRouteHostnameOtherRewrite_path_def)
  then obtain pr where "rewrite_path (HttpGatewayRouteRewrite_bind scope rw) = Some pr"
    by blast
  with assms(1) show ?thesis
    by (simp add: rewrite_bound_def)
qed

lemma pairing_path_fails:
  assumes "prefixPath scope this = Some (CHR ''/'' # s)"
    and "truthy_object (Option.bind (rewrite_bound scope this) rewrite_path)"
    and "Option.bind (match_requestMatch scope this) prefix = Some (CHR ''/'' # s)"
  shows "HttpGatewayRouteSpec_bind scope this = Inl PathRewriteConflictsWithPrefixMatch"
proof -
  have n1: "\<not> (truthy_string (prefixPath scope this)
         \<and> Option.bind (prefixPath scope this) (\<lambda>p. char_at p 0) \<noteq> Some (CHR ''/''))"
    using assms(1) by (simp add: char_at_def)
  have n2: "\<not> (truthy_object (Option.bind (rewrite_bound scope this) rewrite_prefix)
         \<and> \<not> truthy_string (Option.bind (match_requestMatch scope this) prefix))"
    using assms(3) by simp
  have y: "truthy_object (Option.bind (rewrite_bound scope this) rewrite_path)
         \<and> truthy_string (Option.bind (match_requestMatch scope this) prefix)"
    using assms(2,3) by simp
  show ?thesis
    unfolding HttpGatewayRouteSpec_bind_def if_not_P [OF n1] if_not_P [OF n2] if_P [OF y] by (rule refl)
qed

text \<open>
  C5, as the code has it. A spec with a path rewrite (given directly or beside a host name
  rewrite) whose supplied match binds a prefix that starts with a slash fails with
  \<open>PathRewriteConflictsWithPrefixMatch\<close>; the result is the error alone. The statement
  is about a prefix the caller supplied that has passed the format check: the format
  check runs first, and the pairing check reads the supplied match.
\<close>

theorem C5_path_rewrite_conflicts_with_supplied_prefix:
  assumes "this_rewrite this = Some rw"
    and "rw = HttpGatewayRouteRewrite_path exact ro
       \<or> rw = HttpGatewayRouteRewrite_defaultHostname h
            (Some \<lparr> other = Some (HttpGatewayRouteHostnameOtherRewrite_path exact) \<rparr>)"
    and "this_match this = Some m"
    and "prefix (requestMatch (HttpGatewayRouteMatch_bind scope m)) = Some (CHR ''/'' # s)"
  shows "GatewayRouteSpec_bind scope (HttpGatewayRouteSpec this) = Inl PathRewriteConflictsWithPrefixMatch"
proof -
  have p: "prefixPath scope this = Some (CHR ''/'' # s)"
    using assms(3,4) by (simp add: prefixPath_def)
  have q: "Option.bind (match_requestMatch scope this) prefix = Some (CHR ''/'' # s)"
    using assms(3,4) by (simp add: match_requestMatch_def)
  from pairing_path_fails [OF p path_rewrite_bound [OF assms(1,2)] q]
  show ?thesis by simp
qed

theorem C5_path_rewrite_conflicts_with_supplied_prefix_witness:
  "this_rewrite (new_HttpGatewayRouteSpec prefix_match_path_rewrite HTTP) =
     Some (HttpGatewayRouteRewrite_path ''/check'' None)
   \<and> this_match (new_HttpGatewayRouteSpec prefix_match_path_rewrite HTTP) =
     Some (HttpGatewayRouteMatch_prefix ''/api'' None)
   \<and> prefix (requestMatch (HttpGatewayRouteMatch_bind example_scope (HttpGatewayRouteMatch_prefix ''/api'' None))) =
     Some ''/api''
   \<and> GatewayRouteSpec_bind example_scope (GatewayRouteSpec_http prefix_match_path_rewrite) =
     Inl PathRewriteConflictsWithPrefixMatch"
proof -
  have r: "this_rewrite (new_HttpGatewayRouteSpec prefix_match_path_rewrite HTTP) =
     Some (HttpGatewayRouteRewrite_path ''/check'' None)"
    by (simp add: new_HttpGatewayRouteSpec_def prefix_match_path_rewrite_def)
  have m: "this_match (new_HttpGatewayRouteSpec prefix_match_path_rewrite HTTP) =
     Some (HttpGatewayRouteMatch_prefix ''/api'' None)"
    by (simp add: new_HttpGatewayRouteSpec_def prefix_match_path_rewrite_def)
  have p: "prefix (requestMatch (HttpGatewayRouteMatch_bind example_scope (HttpGatewayRouteMatch_prefix ''/api'' None))) =
     Some (CHR ''/'' # ''api'')"
    by (simp add: HttpGatewayRouteMatch_prefix_def)
  have "GatewayRouteSpec_bind example_scope
      (HttpGatewayRouteSpec (new_HttpGatewayRouteSpec prefix_match_path_rewrite HTTP)) =
     Inl PathRewriteConflictsWithPrefixMatch"
    by (rule C5_path_rewrite_conflicts_with_supplied_prefix [OF r _ m p, of "''/check''" None]) simp
  with r m p show ?thesis
    by (simp add: GatewayRouteSpec_http_def)
qed

lemma prefixPath_no_match:
  "this_match this = None \<Longrightarrow> prefixPath scope this = Some ''/''"
  by (simp add: prefixPath_def)

lemma supplied_prefix_no_match:
  "this_match this = None \<Longrightarrow> Option.bind (match_requestMatch scope this) prefix = None"
  by (simp add: match_requestMatch_def)

text \<open>
  Two specs with a path rewrite and a resolved prefix that do not fail with
  \<open>PathRewriteConflictsWithPrefixMatch\<close>: the prefix \<open>api\<close> is rejected by the format check,
  and the spec with no match compiles, with the prefix \<open>/\<close> and the path rewrite both in
  its output.
\<close>

theorem C5_path_rewrite_counterexample:
  "prefixPath example_scope (new_HttpGatewayRouteSpec unrooted_prefix_path_rewrite HTTP) = Some ''api''
   \<and> GatewayRouteSpec_bind example_scope (GatewayRouteSpec_http unrooted_prefix_path_rewrite) =
       Inl (InvalidPrefixFormat ''api'')
   \<and> prefixPath example_scope (new_HttpGatewayRouteSpec no_match_path_rewrite HTTP) = Some ''/''
   \<and> GatewayRouteSpec_bind example_scope (GatewayRouteSpec_http no_match_path_rewrite) =
       Inr \<lparr> httpSpecConfig = Some (httpConfig example_scope (new_HttpGatewayRouteSpec no_match_path_rewrite HTTP)),
         http2SpecConfig = None, grpcSpecConfig = None \<rparr>
   \<and> prefix (http_match (httpConfig example_scope (new_HttpGatewayRouteSpec no_match_path_rewrite HTTP))) =
       Some ''/''
   \<and> Option.bind (http_rewrite (http_action
         (httpConfig example_scope (new_HttpGatewayRouteSpec no_match_path_rewrite HTTP)))) action_path =
       Some \<lparr> rewrite_exact = Some ''/check'' \<rparr>"
proof -
  have p1: "prefixPath example_scope (new_HttpGatewayRouteSpec unrooted_prefix_path_rewrite HTTP) = Some ''api''"
    by (simp add: prefixPath_def new_HttpGatewayRouteSpec_def unrooted_prefix_path_rewrite_def
        HttpGatewayRouteMatch_prefix_def)
  have "HttpGatewayRouteSpec_bind example_scope (new_HttpGatewayRouteSpec unrooted_prefix_path_rewrite HTTP) =
       Inl (InvalidPrefixFormat ''api'')"
    by (rule format_check_fails) (simp_all add: p1)
  then have r1: "GatewayRouteSpec_bind example_scope (GatewayRouteSpec_http unrooted_prefix_path_rewrite) =
       Inl (InvalidPrefixFormat ''api'')"
    by (simp add: GatewayRouteSpec_http_def)
  have nm: "this_match (new_HttpGatewayRouteSpec no_match_path_rewrite HTTP) = None"
    by (simp add: new_HttpGatewayRouteSpec_def no_match_path_rewrite_def)
  note p2 = prefixPath_no_match [OF nm, of example_scope]
  note s2 = supplied_prefix_no_match [OF nm, of example_scope]
  have rb: "Option.bind (rewrite_bound example_scope (new_HttpGatewayRouteSpec no_match_path_rewrite HTTP)) rewrite_prefix = None"
    by (simp add: rewrite_bound_def new_HttpGatewayRouteSpec_def no_match_path_rewrite_def
        HttpGatewayRouteRewrite_path_def)
  have rt: "this_routeType (new_HttpGatewayRouteSpec no_match_path_rewrite HTTP) = HTTP"
    by (simp add: new_HttpGatewayRouteSpec_def)
  have "HttpGatewayRouteSpec_bind example_scope (new_HttpGatewayRouteSpec no_match_path_rewrite HTTP) =
       Inr \<lparr> httpSpecConfig = Some (httpConfig example_scope (new_HttpGatewayRouteSpec no_match_path_rewrite HTTP)),
         http2SpecConfig = None, grpcSpecConfig = None \<rparr>"
    unfolding HttpGatewayRouteSpec_bind_def p2 s2 rb rt
    by (simp add: char_at_def)
  then have r2: "GatewayRouteSpec_bind example_scope (GatewayRouteSpec_http no_match_path_rewrite) =
       Inr \<lparr> httpSpecConfig = Some (httpConfig example_scope (new_HttpGatewayRouteSpec no_match_path_rewrite HTTP)),
         http2SpecConfig = None, grpcSpecConfig = None \<rparr>"
    by (simp add: GatewayRouteSpec_http_def)
  have o1: "prefix (http_match (httpConfig example_scope (new_HttpGatewayRouteSpec no_match_path_rewrite HTTP))) =
       Some ''/''"
    by (simp add: httpConfig_def p2)
  have o2: "Option.bind (http_rewrite (http_action
         (httpConfig example_scope (new_HttpGatewayRouteSpec no_match_path_rewrite HTTP)))) action_path =
       Some \<lparr> rewrite_exact = Some ''/check'' \<rparr>"
    by (simp add: httpConfig_def new_HttpGatewayRouteSpec_def no_match_path_rewrite_def
        HttpGatewayRouteRewrite_path_def)
  from p1 r1 p2 r2 o1 o2 show ?thesis by blast
qed












text \<open>
  C1, at a spec the claim covers. The match of \<open>header_only\<close> carries one header and
  neither a prefix nor a path; \<open>bind\<close> succeeds and the prefix of the compiled match is
  absent, not \<open>/\<close>.
\<close>

theorem C1_header_only_match_prefix_absent:
  "GatewayRouteSpec_bind example_scope (GatewayRouteSpec_http header_only) =
     Inr \<lparr>
       httpSpecConfig = Some \<lparr>
         http_match = \<lparr>
           prefix = None,
           headers = Some [\<lparr> header_name = ''x-env'', header_invert = Some False,
             header_match = Some \<lparr> metadata_exact = Some ''prod'', metadata_prefix = None,
               metadata_range = None, metadata_regex = None, metadata_suffix = None \<rparr> \<rparr>],
           hostname = None,
           request_method = None,
           path = None,
           queryParameters = None \<rparr>,
         http_action = \<lparr>
           http_target = \<lparr> virtualService = \<lparr> target_virtualServiceName = ''backend.local'' \<rparr> \<rparr>,
           http_rewrite = None \<rparr> \<rparr>,
       http2SpecConfig = None,
       grpcSpecConfig = None \<rparr>"
proof -
  let ?spec = "new_HttpGatewayRouteSpec header_only HTTP"
  have rm: "match_requestMatch example_scope ?spec = Some \<lparr>
           prefix = None,
           headers = Some [\<lparr> header_name = ''x-env'', header_invert = Some False,
             header_match = Some \<lparr> metadata_exact = Some ''prod'', metadata_prefix = None,
               metadata_range = None, metadata_regex = None, metadata_suffix = None \<rparr> \<rparr>],
           hostname = None,
           request_method = None,
           path = None,
           queryParameters = None \<rparr>"
    by (simp add: match_requestMatch_def new_HttpGatewayRouteSpec_def header_only_def
        HttpGatewayRouteMatch_header_def bind_hostname_def bind_queryParameters_def
        bind_prefixOrPath_prefix_def bind_prefixOrPath_path_def no_match_method_def)
  have p: "prefixPath example_scope ?spec = None"
    by (simp add: prefixPath_def new_HttpGatewayRouteSpec_def header_only_def
        HttpGatewayRouteMatch_header_def bind_prefixOrPath_prefix_def)
  have rb: "rewrite_bound example_scope ?spec = None"
    by (simp add: rewrite_bound_def new_HttpGatewayRouteSpec_def header_only_def)
  have rt: "this_routeType ?spec = HTTP"
    by (simp add: new_HttpGatewayRouteSpec_def)
  have rw: "this_rewrite ?spec = None"
    by (simp add: new_HttpGatewayRouteSpec_def header_only_def)
  have tg: "virtualServiceName (this_routeTarget ?spec) = ''backend.local''"
    by (simp add: new_HttpGatewayRouteSpec_def header_only_def example_target_def)
  have "HttpGatewayRouteSpec_bind example_scope ?spec =
      Inr \<lparr> httpSpecConfig = Some (httpConfig example_scope ?spec),
        http2SpecConfig = None, grpcSpecConfig = None \<rparr>"
    unfolding HttpGatewayRouteSpec_bind_def p rb rt by simp
  moreover have "httpConfig example_scope ?spec = \<lparr>
         http_match = \<lparr>
           prefix = None,
           headers = Some [\<lparr> header_name = ''x-env'', header_invert = Some False,
             header_match = Some \<lparr> metadata_exact = Some ''prod'', metadata_prefix = None,
               metadata_range = None, metadata_regex = None, metadata_suffix = None \<rparr> \<rparr>],
           hostname = None,
           request_method = None,
           path = None,
           queryParameters = None \<rparr>,
         http_action = \<lparr>
           http_target = \<lparr> virtualService = \<lparr> target_virtualServiceName = ''backend.local'' \<rparr> \<rparr>,
           http_rewrite = None \<rparr> \<rparr>"
    unfolding httpConfig_def p rm rw tg by simp
  ultimately show ?thesis
    by (simp add: GatewayRouteSpec_http_def)
qed

text \<open>
  C7, at Scenario E. The options carry the rewrite \<open>defaultHostname(DISABLED)\<close>; \<open>bind\<close>
  succeeds and fills the gRPC slot only, and the action it emits has no rewrite at all.
\<close>

theorem C7_scenario_E_rewrite_dropped:
  "grpc_opt_rewrite scenario_E = Some (GrpcGatewayRouteRewrite_defaultHostname DISABLED)
   \<and> GatewayRouteSpec_bind example_scope (GatewayRouteSpec_grpc scenario_E) =
     Inr \<lparr>
       httpSpecConfig = None,
       http2SpecConfig = None,
       grpcSpecConfig = Some \<lparr>
         grpc_action = \<lparr>
           grpc_target = \<lparr> virtualService = \<lparr> target_virtualServiceName = ''backend.local'' \<rparr> \<rparr>,
           grpc_rewrite = None \<rparr>,
         grpc_match = \<lparr>
           grpc_hostname = None,
           grpc_metadata = None,
           grpc_serviceName = Some ''billing.v1'' \<rparr> \<rparr> \<rparr>"
  by (simp add: GatewayRouteSpec_grpc_def new_GrpcGatewayRouteSpec_def GrpcGatewayRouteSpec_bind_def
      scenario_E_def example_target_def GrpcGatewayRouteMatch_serviceName_def
      bind_hostname_def bind_metadata_def)

lemma prefixOrPath_exactly_one:
  "(prefix (requestMatch (HttpGatewayRoutePathOrPrefixMatch_bind scope pp)) = None)
     \<noteq> (path (requestMatch (HttpGatewayRoutePathOrPrefixMatch_bind scope pp)) = None)"
  by (cases pp) simp_all

lemma prefixOrPath_option_exclusive:
  "bind_prefixOrPath_prefix scope pp = None \<or> bind_prefixOrPath_path scope pp = None"
proof (cases pp)
  case None
  then show ?thesis
    by (simp add: bind_prefixOrPath_prefix_def)
next
  case (Some x)
  then show ?thesis
    by (cases x) (simp_all add: bind_prefixOrPath_prefix_def bind_prefixOrPath_path_def)
qed

lemma match_bind_exclusive:
  "prefix (requestMatch (HttpGatewayRouteMatch_bind scope m)) = None
   \<or> path (requestMatch (HttpGatewayRouteMatch_bind scope m)) = None"
  by (cases m) (simp_all add: prefixOrPath_option_exclusive)

lemma httpConfig_exclusive:
  "prefix (http_match (httpConfig scope this)) = None \<or> path (http_match (httpConfig scope this)) = None"
proof (cases "this_match this")
  case None
  then show ?thesis
    by (simp add: httpConfig_def match_requestMatch_def)
next
  case (Some m)
  with match_bind_exclusive [of scope m] show ?thesis
    by (simp add: httpConfig_def match_requestMatch_def prefixPath_def)
qed

text \<open>
  C8. A match bound by any of the six entry points never has both a prefix and a path:
  the prefix entry point gives a prefix and no path, the path entry point a path and no
  prefix, the \<open>prefixOrPath\<close> sub-builder exactly one of the two. The same holds for the
  match of every successfully compiled HTTP or HTTP2 output.
\<close>

theorem C8_prefix_and_path_exclusive:
  "(prefix (requestMatch (HttpGatewayRouteMatch_bind scope m)) = None
      \<or> path (requestMatch (HttpGatewayRouteMatch_bind scope m)) = None)
   \<and> prefix (requestMatch (HttpGatewayRouteMatch_bind scope (HttpGatewayRouteMatch_prefix p po))) = Some p
   \<and> path (requestMatch (HttpGatewayRouteMatch_bind scope (HttpGatewayRouteMatch_prefix p po))) = None
   \<and> prefix (requestMatch (HttpGatewayRouteMatch_bind scope (HttpGatewayRouteMatch_path pm pao))) = None
   \<and> path (requestMatch (HttpGatewayRouteMatch_bind scope (HttpGatewayRouteMatch_path pm pao))) =
       Some (pathMatch (HttpPathMatch_bind scope pm))
   \<and> ((prefix (requestMatch (HttpGatewayRoutePathOrPrefixMatch_bind scope pp)) = None)
       \<noteq> (path (requestMatch (HttpGatewayRoutePathOrPrefixMatch_bind scope pp)) = None))
   \<and> (GatewayRouteSpec_bind scope (HttpGatewayRouteSpec this) = Inr cfg
        \<and> (httpSpecConfig cfg = Some c \<or> http2SpecConfig cfg = Some c) \<longrightarrow>
      prefix (http_match c) = None \<or> path (http_match c) = None)"
proof (intro conjI impI)
  show "prefix (requestMatch (HttpGatewayRouteMatch_bind scope m)) = None
      \<or> path (requestMatch (HttpGatewayRouteMatch_bind scope m)) = None"
    by (rule match_bind_exclusive)
  show "prefix (requestMatch (HttpGatewayRouteMatch_bind scope (HttpGatewayRouteMatch_prefix p po))) = Some p"
    by (simp add: HttpGatewayRouteMatch_prefix_def)
  show "path (requestMatch (HttpGatewayRouteMatch_bind scope (HttpGatewayRouteMatch_prefix p po))) = None"
    by (simp add: HttpGatewayRouteMatch_prefix_def)
  show "prefix (requestMatch (HttpGatewayRouteMatch_bind scope (HttpGatewayRouteMatch_path pm pao))) = None"
    by (simp add: HttpGatewayRouteMatch_path_def)
  show "path (requestMatch (HttpGatewayRouteMatch_bind scope (HttpGatewayRouteMatch_path pm pao))) =
       Some (pathMatch (HttpPathMatch_bind scope pm))"
    by (simp add: HttpGatewayRouteMatch_path_def)
  show "(prefix (requestMatch (HttpGatewayRoutePathOrPrefixMatch_bind scope pp)) = None)
       \<noteq> (path (requestMatch (HttpGatewayRoutePathOrPrefixMatch_bind scope pp)) = None)"
    by (rule prefixOrPath_exactly_one)
next
  assume a: "GatewayRouteSpec_bind scope (HttpGatewayRouteSpec this) = Inr cfg
        \<and> (httpSpecConfig cfg = Some c \<or> http2SpecConfig cfg = Some c)"
  then have "HttpGatewayRouteSpec_bind scope this = Inr cfg"
    by simp
  from HttpGatewayRouteSpec_bind_Inr [OF this] a have "c = httpConfig scope this"
    by (auto split: if_splits)
  with httpConfig_exclusive [of scope this]
  show "prefix (http_match c) = None \<or> path (http_match c) = None"
    by simp
qed

theorem C8_prefix_and_path_exclusive_witness:
  "GatewayRouteSpec_bind example_scope (HttpGatewayRouteSpec (new_HttpGatewayRouteSpec scenario_A HTTP)) =
     Inr \<lparr> httpSpecConfig = Some (httpConfig example_scope (new_HttpGatewayRouteSpec scenario_A HTTP)),
       http2SpecConfig = None, grpcSpecConfig = None \<rparr>
   \<and> prefix (http_match (httpConfig example_scope (new_HttpGatewayRouteSpec scenario_A HTTP))) = Some ''/metrics''
   \<and> path (http_match (httpConfig example_scope (new_HttpGatewayRouteSpec scenario_A HTTP))) = None"
proof -
  let ?c = "httpConfig example_scope (new_HttpGatewayRouteSpec scenario_A HTTP)"
  let ?cfg = "\<lparr> httpSpecConfig = Some ?c, http2SpecConfig = None, grpcSpecConfig = None \<rparr>"
  have b: "GatewayRouteSpec_bind example_scope (HttpGatewayRouteSpec (new_HttpGatewayRouteSpec scenario_A HTTP)) =
     Inr ?cfg"
    by (simp add: concrete_bind_A)
  have p: "prefix (http_match ?c) = Some ''/metrics''"
    by (simp add: httpConfig_def prefixPath_scenario_A)
  have h: "GatewayRouteSpec_bind example_scope (HttpGatewayRouteSpec (new_HttpGatewayRouteSpec scenario_A HTTP)) =
     Inr ?cfg \<and> (httpSpecConfig ?cfg = Some ?c \<or> http2SpecConfig ?cfg = Some ?c)"
    using b by simp
  from C8_prefix_and_path_exclusive
    [of example_scope "HttpGatewayRouteMatch_prefix ''/metrics'' None" "''/metrics''" None
        "HttpPathMatch_matchingExactly ''/health''" no_path_options
        "HttpGatewayRoutePathOrPrefixMatch_prefix ''/metrics''"
        "new_HttpGatewayRouteSpec scenario_A HTTP" ?cfg ?c]
  have "GatewayRouteSpec_bind example_scope (HttpGatewayRouteSpec (new_HttpGatewayRouteSpec scenario_A HTTP)) =
     Inr ?cfg \<and> (httpSpecConfig ?cfg = Some ?c \<or> http2SpecConfig ?cfg = Some ?c) \<longrightarrow>
     prefix (http_match ?c) = None \<or> path (http_match ?c) = None"
    by (elim conjE)
  from this h have "prefix (http_match ?c) = None \<or> path (http_match ?c) = None"
    by (rule mp)
  with p have "path (http_match ?c) = None"
    by simp
  with b p show ?thesis by blast
qed

text \<open>
  C10. The rewrite bound from the \<open>path\<close>, \<open>defaultPrefix\<close> or \<open>customPrefix\<close> entry point
  always has a host name record, whose \<open>defaultTargetHostname\<close> is the option's value, or
  absent when the option was omitted. So the action of every successfully compiled HTTP
  or HTTP2 output with such a rewrite carries that host name record.
\<close>

theorem C10_rewrite_always_has_hostname:
  "rewrite_hostname (HttpGatewayRouteRewrite_bind scope (HttpGatewayRouteRewrite_path exact ro)) =
     Some \<lparr> defaultTargetHostname = Option.bind ro opt_defaultTargetHostname \<rparr>
   \<and> rewrite_hostname (HttpGatewayRouteRewrite_bind scope (HttpGatewayRouteRewrite_defaultPrefix d ro)) =
     Some \<lparr> defaultTargetHostname = Option.bind ro opt_defaultTargetHostname \<rparr>
   \<and> rewrite_hostname (HttpGatewayRouteRewrite_bind scope (HttpGatewayRouteRewrite_customPrefix d ro)) =
     Some \<lparr> defaultTargetHostname = Option.bind ro opt_defaultTargetHostname \<rparr>
   \<and> ((this_rewrite this = Some (HttpGatewayRouteRewrite_path exact ro)
         \<or> this_rewrite this = Some (HttpGatewayRouteRewrite_defaultPrefix d ro)
         \<or> this_rewrite this = Some (HttpGatewayRouteRewrite_customPrefix d ro))
        \<and> GatewayRouteSpec_bind scope (HttpGatewayRouteSpec this) = Inr cfg
        \<and> (httpSpecConfig cfg = Some c \<or> http2SpecConfig cfg = Some c) \<longrightarrow>
      Option.bind (http_rewrite (http_action c)) action_hostname =
        Some \<lparr> defaultTargetHostname = Option.bind ro opt_defaultTargetHostname \<rparr>)"
proof (intro conjI impI)
  show "rewrite_hostname (HttpGatewayRouteRewrite_bind scope (HttpGatewayRouteRewrite_path exact ro)) =
     Some \<lparr> defaultTargetHostname = Option.bind ro opt_defaultTargetHostname \<rparr>"
    by (simp add: HttpGatewayRouteRewrite_path_def)
  show "rewrite_hostname (HttpGatewayRouteRewrite_bind scope (HttpGatewayRouteRewrite_defaultPrefix d ro)) =
     Some \<lparr> defaultTargetHostname = Option.bind ro opt_defaultTargetHostname \<rparr>"
    by (simp add: HttpGatewayRouteRewrite_defaultPrefix_def)
  show "rewrite_hostname (HttpGatewayRouteRewrite_bind scope (HttpGatewayRouteRewrite_customPrefix d ro)) =
     Some \<lparr> defaultTargetHostname = Option.bind ro opt_defaultTargetHostname \<rparr>"
    by (simp add: HttpGatewayRouteRewrite_customPrefix_def)
next
  assume a: "(this_rewrite this = Some (HttpGatewayRouteRewrite_path exact ro)
         \<or> this_rewrite this = Some (HttpGatewayRouteRewrite_defaultPrefix d ro)
         \<or> this_rewrite this = Some (HttpGatewayRouteRewrite_customPrefix d ro))
        \<and> GatewayRouteSpec_bind scope (HttpGatewayRouteSpec this) = Inr cfg
        \<and> (httpSpecConfig cfg = Some c \<or> http2SpecConfig cfg = Some c)"
  then have "HttpGatewayRouteSpec_bind scope this = Inr cfg"
    by simp
  from HttpGatewayRouteSpec_bind_Inr [OF this] a have c: "c = httpConfig scope this"
    by (auto split: if_splits)
  from a have "this_rewrite this = Some (HttpGatewayRouteRewrite_path exact ro)
         \<or> this_rewrite this = Some (HttpGatewayRouteRewrite_defaultPrefix d ro)
         \<or> this_rewrite this = Some (HttpGatewayRouteRewrite_customPrefix d ro)"
    by blast
  then show "Option.bind (http_rewrite (http_action c)) action_hostname =
        Some \<lparr> defaultTargetHostname = Option.bind ro opt_defaultTargetHostname \<rparr>"
    unfolding c
    by (elim disjE)
      (simp_all add: httpConfig_def HttpGatewayRouteRewrite_path_def
        HttpGatewayRouteRewrite_defaultPrefix_def HttpGatewayRouteRewrite_customPrefix_def)
qed

lemma concrete_bind_prefix_rewrite:
  "HttpGatewayRouteSpec_bind example_scope (new_HttpGatewayRouteSpec prefix_match_prefix_rewrite HTTP) =
     Inr \<lparr> httpSpecConfig = Some (httpConfig example_scope (new_HttpGatewayRouteSpec prefix_match_prefix_rewrite HTTP)),
       http2SpecConfig = None, grpcSpecConfig = None \<rparr>"
  by (simp add: HttpGatewayRouteSpec_bind_def prefixPath_def match_requestMatch_def rewrite_bound_def
      char_at_def new_HttpGatewayRouteSpec_def prefix_match_prefix_rewrite_def HttpGatewayRouteMatch_prefix_def
      HttpGatewayRouteRewrite_customPrefix_def)

theorem C10_rewrite_always_has_hostname_witness:
  "this_rewrite (new_HttpGatewayRouteSpec prefix_match_prefix_rewrite HTTP) =
     Some (HttpGatewayRouteRewrite_customPrefix ENABLED None)
   \<and> GatewayRouteSpec_bind example_scope (GatewayRouteSpec_http prefix_match_prefix_rewrite) =
     Inr \<lparr> httpSpecConfig = Some (httpConfig example_scope (new_HttpGatewayRouteSpec prefix_match_prefix_rewrite HTTP)),
       http2SpecConfig = None, grpcSpecConfig = None \<rparr>
   \<and> Option.bind (http_rewrite (http_action
         (httpConfig example_scope (new_HttpGatewayRouteSpec prefix_match_prefix_rewrite HTTP)))) action_hostname =
     Some \<lparr> defaultTargetHostname = None \<rparr>"
proof -
  let ?spec = "new_HttpGatewayRouteSpec prefix_match_prefix_rewrite HTTP"
  let ?c = "httpConfig example_scope ?spec"
  let ?cfg = "\<lparr> httpSpecConfig = Some ?c, http2SpecConfig = None, grpcSpecConfig = None \<rparr>"
  have r: "this_rewrite ?spec = Some (HttpGatewayRouteRewrite_customPrefix ENABLED None)"
    by (simp add: new_HttpGatewayRouteSpec_def prefix_match_prefix_rewrite_def)
  have b: "GatewayRouteSpec_bind example_scope (HttpGatewayRouteSpec ?spec) = Inr ?cfg"
    by (simp add: concrete_bind_prefix_rewrite)
  have h: "(this_rewrite ?spec = Some (HttpGatewayRouteRewrite_path ''/check'' None)
         \<or> this_rewrite ?spec = Some (HttpGatewayRouteRewrite_defaultPrefix ENABLED None)
         \<or> this_rewrite ?spec = Some (HttpGatewayRouteRewrite_customPrefix ENABLED None))
        \<and> GatewayRouteSpec_bind example_scope (HttpGatewayRouteSpec ?spec) = Inr ?cfg
        \<and> (httpSpecConfig ?cfg = Some ?c \<or> http2SpecConfig ?cfg = Some ?c)"
    using r b by simp
  from C10_rewrite_always_has_hostname [of example_scope "''/check''" None ENABLED ?spec ?cfg ?c]
  have "(this_rewrite ?spec = Some (HttpGatewayRouteRewrite_path ''/check'' None)
         \<or> this_rewrite ?spec = Some (HttpGatewayRouteRewrite_defaultPrefix ENABLED None)
         \<or> this_rewrite ?spec = Some (HttpGatewayRouteRewrite_customPrefix ENABLED None))
        \<and> GatewayRouteSpec_bind example_scope (HttpGatewayRouteSpec ?spec) = Inr ?cfg
        \<and> (httpSpecConfig ?cfg = Some ?c \<or> http2SpecConfig ?cfg = Some ?c) \<longrightarrow>
      Option.bind (http_rewrite (http_action ?c)) action_hostname =
        Some \<lparr> defaultTargetHostname = Option.bind (None :: HttpGatewayRoutePrefixRewriteOptions option) opt_defaultTargetHostname \<rparr>"
    by (elim conjE)
  from this h
  have "Option.bind (http_rewrite (http_action ?c)) action_hostname =
     Some \<lparr> defaultTargetHostname = Option.bind (None :: HttpGatewayRoutePrefixRewriteOptions option) opt_defaultTargetHostname \<rparr>"
    by (rule mp)
  then have "Option.bind (http_rewrite (http_action ?c)) action_hostname = Some \<lparr> defaultTargetHostname = None \<rparr>"
    by simp
  with r b show ?thesis
    by (simp add: GatewayRouteSpec_http_def)
qed

end
